theory Spec2Isabelle
  imports Main
begin

section \<open>Strings of code points\<close>

text \<open>
  A Python \<open>str\<close> is a sequence of Unicode code points: \<open>len\<close>, indexing, the
  regular expressions and \<open>strip\<close> all count code points. A string is therefore a list
  of code points, each a natural number; \<open>u\<close> embeds an ASCII literal. The Chinese
  literals of the program are written as lists of code points further down.
\<close>

type_synonym ustr = "nat list"

abbreviation u :: "string \<Rightarrow> ustr" where
  "u s \<equiv> map (of_char :: char \<Rightarrow> nat) s"

subsection \<open>Character classes of the Unicode database\<close>

text \<open>
  The tables are those of the Unicode database 14.0 shipped with CPython 3.11: the
  code points accepted by \<open>str.isspace\<close> and \<open>\s\<close>, by \<open>\d\<close>
  (decimal digits), by \<open>\w\<close> (alphanumerics and the underscore), and the simple
  lowercase mapping. Each table is sorted, which \<open>in_ranges\<close> and
  \<open>lower_lookup\<close> use to stop early.
\<close>

fun in_ranges :: "nat \<Rightarrow> (nat \<times> nat) list \<Rightarrow> bool" where
  "in_ranges c [] = False"
| "in_ranges c ((lo, hi) # rs) =
     (if c < lo then False else if c \<le> hi then True else in_ranges c rs)"

definition space_ranges :: "(nat \<times> nat) list" where
  "space_ranges = [
   (0x9, 0xD), (0x1C, 0x20), (0x85, 0x85), (0xA0, 0xA0), (0x1680, 0x1680), (0x2000, 0x200A),
   (0x2028, 0x2029), (0x202F, 0x202F), (0x205F, 0x205F), (0x3000, 0x3000)]"

definition digit_ranges :: "(nat \<times> nat) list" where
  "digit_ranges = [
   (0x30, 0x39), (0x660, 0x669), (0x6F0, 0x6F9), (0x7C0, 0x7C9), (0x966, 0x96F), (0x9E6, 0x9EF),
   (0xA66, 0xA6F), (0xAE6, 0xAEF), (0xB66, 0xB6F), (0xBE6, 0xBEF), (0xC66, 0xC6F), (0xCE6, 0xCEF),
   (0xD66, 0xD6F), (0xDE6, 0xDEF), (0xE50, 0xE59), (0xED0, 0xED9), (0xF20, 0xF29), (0x1040, 0x1049),
   (0x1090, 0x1099), (0x17E0, 0x17E9), (0x1810, 0x1819), (0x1946, 0x194F), (0x19D0, 0x19D9), (0x1A80, 0x1A89),
   (0x1A90, 0x1A99), (0x1B50, 0x1B59), (0x1BB0, 0x1BB9), (0x1C40, 0x1C49), (0x1C50, 0x1C59), (0xA620, 0xA629),
   (0xA8D0, 0xA8D9), (0xA900, 0xA909), (0xA9D0, 0xA9D9), (0xA9F0, 0xA9F9), (0xAA50, 0xAA59), (0xABF0, 0xABF9),
   (0xFF10, 0xFF19), (0x104A0, 0x104A9), (0x10D30, 0x10D39), (0x11066, 0x1106F), (0x110F0, 0x110F9), (0x11136, 0x1113F),
   (0x111D0, 0x111D9), (0x112F0, 0x112F9), (0x11450, 0x11459), (0x114D0, 0x114D9), (0x11650, 0x11659), (0x116C0, 0x116C9),
   (0x11730, 0x11739), (0x118E0, 0x118E9), (0x11950, 0x11959), (0x11C50, 0x11C59), (0x11D50, 0x11D59), (0x11DA0, 0x11DA9),
   (0x16A60, 0x16A69), (0x16AC0, 0x16AC9), (0x16B50, 0x16B59), (0x1D7CE, 0x1D7FF), (0x1E140, 0x1E149), (0x1E2F0, 0x1E2F9),
   (0x1E950, 0x1E959), (0x1FBF0, 0x1FBF9)]"

definition word_ranges :: "(nat \<times> nat) list" where
  "word_ranges = [
   (0x30, 0x39), (0x41, 0x5A), (0x5F, 0x5F), (0x61, 0x7A), (0xAA, 0xAA), (0xB2, 0xB3),
   (0xB5, 0xB5), (0xB9, 0xBA), (0xBC, 0xBE), (0xC0, 0xD6), (0xD8, 0xF6), (0xF8, 0x2C1),
   (0x2C6, 0x2D1), (0x2E0, 0x2E4), (0x2EC, 0x2EC), (0x2EE, 0x2EE), (0x370, 0x374), (0x376, 0x377),
   (0x37A, 0x37D), (0x37F, 0x37F), (0x386, 0x386), (0x388, 0x38A), (0x38C, 0x38C), (0x38E, 0x3A1),
   (0x3A3, 0x3F5), (0x3F7, 0x481), (0x48A, 0x52F), (0x531, 0x556), (0x559, 0x559), (0x560, 0x588),
   (0x5D0, 0x5EA), (0x5EF, 0x5F2), (0x620, 0x64A), (0x660, 0x669), (0x66E, 0x66F), (0x671, 0x6D3),
   (0x6D5, 0x6D5), (0x6E5, 0x6E6), (0x6EE, 0x6FC), (0x6FF, 0x6FF), (0x710, 0x710), (0x712, 0x72F),
   (0x74D, 0x7A5), (0x7B1, 0x7B1), (0x7C0, 0x7EA), (0x7F4, 0x7F5), (0x7FA, 0x7FA), (0x800, 0x815),
   (0x81A, 0x81A), (0x824, 0x824), (0x828, 0x828), (0x840, 0x858), (0x860, 0x86A), (0x870, 0x887),
   (0x889, 0x88E), (0x8A0, 0x8C9), (0x904, 0x939), (0x93D, 0x93D), (0x950, 0x950), (0x958, 0x961),
   (0x966, 0x96F), (0x971, 0x980), (0x985, 0x98C), (0x98F, 0x990), (0x993, 0x9A8), (0x9AA, 0x9B0),
   (0x9B2, 0x9B2), (0x9B6, 0x9B9), (0x9BD, 0x9BD), (0x9CE, 0x9CE), (0x9DC, 0x9DD), (0x9DF, 0x9E1),
   (0x9E6, 0x9F1), (0x9F4, 0x9F9), (0x9FC, 0x9FC), (0xA05, 0xA0A), (0xA0F, 0xA10), (0xA13, 0xA28),
   (0xA2A, 0xA30), (0xA32, 0xA33), (0xA35, 0xA36), (0xA38, 0xA39), (0xA59, 0xA5C), (0xA5E, 0xA5E),
   (0xA66, 0xA6F), (0xA72, 0xA74), (0xA85, 0xA8D), (0xA8F, 0xA91), (0xA93, 0xAA8), (0xAAA, 0xAB0),
   (0xAB2, 0xAB3), (0xAB5, 0xAB9), (0xABD, 0xABD), (0xAD0, 0xAD0), (0xAE0, 0xAE1), (0xAE6, 0xAEF),
   (0xAF9, 0xAF9), (0xB05, 0xB0C), (0xB0F, 0xB10), (0xB13, 0xB28), (0xB2A, 0xB30), (0xB32, 0xB33),
   (0xB35, 0xB39), (0xB3D, 0xB3D), (0xB5C, 0xB5D), (0xB5F, 0xB61), (0xB66, 0xB6F), (0xB71, 0xB77),
   (0xB83, 0xB83), (0xB85, 0xB8A), (0xB8E, 0xB90), (0xB92, 0xB95), (0xB99, 0xB9A), (0xB9C, 0xB9C),
   (0xB9E, 0xB9F), (0xBA3, 0xBA4), (0xBA8, 0xBAA), (0xBAE, 0xBB9), (0xBD0, 0xBD0), (0xBE6, 0xBF2),
   (0xC05, 0xC0C), (0xC0E, 0xC10), (0xC12, 0xC28), (0xC2A, 0xC39), (0xC3D, 0xC3D), (0xC58, 0xC5A),
   (0xC5D, 0xC5D), (0xC60, 0xC61), (0xC66, 0xC6F), (0xC78, 0xC7E), (0xC80, 0xC80), (0xC85, 0xC8C),
   (0xC8E, 0xC90), (0xC92, 0xCA8), (0xCAA, 0xCB3), (0xCB5, 0xCB9), (0xCBD, 0xCBD), (0xCDD, 0xCDE),
   (0xCE0, 0xCE1), (0xCE6, 0xCEF), (0xCF1, 0xCF2), (0xD04, 0xD0C), (0xD0E, 0xD10), (0xD12, 0xD3A),
   (0xD3D, 0xD3D), (0xD4E, 0xD4E), (0xD54, 0xD56), (0xD58, 0xD61), (0xD66, 0xD78), (0xD7A, 0xD7F),
   (0xD85, 0xD96), (0xD9A, 0xDB1), (0xDB3, 0xDBB), (0xDBD, 0xDBD), (0xDC0, 0xDC6), (0xDE6, 0xDEF),
   (0xE01, 0xE30), (0xE32, 0xE33), (0xE40, 0xE46), (0xE50, 0xE59), (0xE81, 0xE82), (0xE84, 0xE84),
   (0xE86, 0xE8A), (0xE8C, 0xEA3), (0xEA5, 0xEA5), (0xEA7, 0xEB0), (0xEB2, 0xEB3), (0xEBD, 0xEBD),
   (0xEC0, 0xEC4), (0xEC6, 0xEC6), (0xED0, 0xED9), (0xEDC, 0xEDF), (0xF00, 0xF00), (0xF20, 0xF33),
   (0xF40, 0xF47), (0xF49, 0xF6C), (0xF88, 0xF8C), (0x1000, 0x102A), (0x103F, 0x1049), (0x1050, 0x1055),
   (0x105A, 0x105D), (0x1061, 0x1061), (0x1065, 0x1066), (0x106E, 0x1070), (0x1075, 0x1081), (0x108E, 0x108E),
   (0x1090, 0x1099), (0x10A0, 0x10C5), (0x10C7, 0x10C7), (0x10CD, 0x10CD), (0x10D0, 0x10FA), (0x10FC, 0x1248),
   (0x124A, 0x124D), (0x1250, 0x1256), (0x1258, 0x1258), (0x125A, 0x125D), (0x1260, 0x1288), (0x128A, 0x128D),
   (0x1290, 0x12B0), (0x12B2, 0x12B5), (0x12B8, 0x12BE), (0x12C0, 0x12C0), (0x12C2, 0x12C5), (0x12C8, 0x12D6),
   (0x12D8, 0x1310), (0x1312, 0x1315), (0x1318, 0x135A), (0x1369, 0x137C), (0x1380, 0x138F), (0x13A0, 0x13F5),
   (0x13F8, 0x13FD), (0x1401, 0x166C), (0x166F, 0x167F), (0x1681, 0x169A), (0x16A0, 0x16EA), (0x16EE, 0x16F8),
   (0x1700, 0x1711), (0x171F, 0x1731), (0x1740, 0x1751), (0x1760, 0x176C), (0x176E, 0x1770), (0x1780, 0x17B3),
   (0x17D7, 0x17D7), (0x17DC, 0x17DC), (0x17E0, 0x17E9), (0x17F0, 0x17F9), (0x1810, 0x1819), (0x1820, 0x1878),
   (0x1880, 0x1884), (0x1887, 0x18A8), (0x18AA, 0x18AA), (0x18B0, 0x18F5), (0x1900, 0x191E), (0x1946, 0x196D),
   (0x1970, 0x1974), (0x1980, 0x19AB), (0x19B0, 0x19C9), (0x19D0, 0x19DA), (0x1A00, 0x1A16), (0x1A20, 0x1A54),
   (0x1A80, 0x1A89), (0x1A90, 0x1A99), (0x1AA7, 0x1AA7), (0x1B05, 0x1B33), (0x1B45, 0x1B4C), (0x1B50, 0x1B59),
   (0x1B83, 0x1BA0), (0x1BAE, 0x1BE5), (0x1C00, 0x1C23), (0x1C40, 0x1C49), (0x1C4D, 0x1C7D), (0x1C80, 0x1C88),
   (0x1C90, 0x1CBA), (0x1CBD, 0x1CBF), (0x1CE9, 0x1CEC), (0x1CEE, 0x1CF3), (0x1CF5, 0x1CF6), (0x1CFA, 0x1CFA),
   (0x1D00, 0x1DBF), (0x1E00, 0x1F15), (0x1F18, 0x1F1D), (0x1F20, 0x1F45), (0x1F48, 0x1F4D), (0x1F50, 0x1F57),
   (0x1F59, 0x1F59), (0x1F5B, 0x1F5B), (0x1F5D, 0x1F5D), (0x1F5F, 0x1F7D), (0x1F80, 0x1FB4), (0x1FB6, 0x1FBC),
   (0x1FBE, 0x1FBE), (0x1FC2, 0x1FC4), (0x1FC6, 0x1FCC), (0x1FD0, 0x1FD3), (0x1FD6, 0x1FDB), (0x1FE0, 0x1FEC),
   (0x1FF2, 0x1FF4), (0x1FF6, 0x1FFC), (0x2070, 0x2071), (0x2074, 0x2079), (0x207F, 0x2089), (0x2090, 0x209C),
   (0x2102, 0x2102), (0x2107, 0x2107), (0x210A, 0x2113), (0x2115, 0x2115), (0x2119, 0x211D), (0x2124, 0x2124),
   (0x2126, 0x2126), (0x2128, 0x2128), (0x212A, 0x212D), (0x212F, 0x2139), (0x213C, 0x213F), (0x2145, 0x2149),
   (0x214E, 0x214E), (0x2150, 0x2189), (0x2460, 0x249B), (0x24EA, 0x24FF), (0x2776, 0x2793), (0x2C00, 0x2CE4),
   (0x2CEB, 0x2CEE), (0x2CF2, 0x2CF3), (0x2CFD, 0x2CFD), (0x2D00, 0x2D25), (0x2D27, 0x2D27), (0x2D2D, 0x2D2D),
   (0x2D30, 0x2D67), (0x2D6F, 0x2D6F), (0x2D80, 0x2D96), (0x2DA0, 0x2DA6), (0x2DA8, 0x2DAE), (0x2DB0, 0x2DB6),
   (0x2DB8, 0x2DBE), (0x2DC0, 0x2DC6), (0x2DC8, 0x2DCE), (0x2DD0, 0x2DD6), (0x2DD8, 0x2DDE), (0x2E2F, 0x2E2F),
   (0x3005, 0x3007), (0x3021, 0x3029), (0x3031, 0x3035), (0x3038, 0x303C), (0x3041, 0x3096), (0x309D, 0x309F),
   (0x30A1, 0x30FA), (0x30FC, 0x30FF), (0x3105, 0x312F), (0x3131, 0x318E), (0x3192, 0x3195), (0x31A0, 0x31BF),
   (0x31F0, 0x31FF), (0x3220, 0x3229), (0x3248, 0x324F), (0x3251, 0x325F), (0x3280, 0x3289), (0x32B1, 0x32BF),
   (0x3400, 0x4DBF), (0x4E00, 0xA48C), (0xA4D0, 0xA4FD), (0xA500, 0xA60C), (0xA610, 0xA62B), (0xA640, 0xA66E),
   (0xA67F, 0xA69D), (0xA6A0, 0xA6EF), (0xA717, 0xA71F), (0xA722, 0xA788), (0xA78B, 0xA7CA), (0xA7D0, 0xA7D1),
   (0xA7D3, 0xA7D3), (0xA7D5, 0xA7D9), (0xA7F2, 0xA801), (0xA803, 0xA805), (0xA807, 0xA80A), (0xA80C, 0xA822),
   (0xA830, 0xA835), (0xA840, 0xA873), (0xA882, 0xA8B3), (0xA8D0, 0xA8D9), (0xA8F2, 0xA8F7), (0xA8FB, 0xA8FB),
   (0xA8FD, 0xA8FE), (0xA900, 0xA925), (0xA930, 0xA946), (0xA960, 0xA97C), (0xA984, 0xA9B2), (0xA9CF, 0xA9D9),
   (0xA9E0, 0xA9E4), (0xA9E6, 0xA9FE), (0xAA00, 0xAA28), (0xAA40, 0xAA42), (0xAA44, 0xAA4B), (0xAA50, 0xAA59),
   (0xAA60, 0xAA76), (0xAA7A, 0xAA7A), (0xAA7E, 0xAAAF), (0xAAB1, 0xAAB1), (0xAAB5, 0xAAB6), (0xAAB9, 0xAABD),
   (0xAAC0, 0xAAC0), (0xAAC2, 0xAAC2), (0xAADB, 0xAADD), (0xAAE0, 0xAAEA), (0xAAF2, 0xAAF4), (0xAB01, 0xAB06),
   (0xAB09, 0xAB0E), (0xAB11, 0xAB16), (0xAB20, 0xAB26), (0xAB28, 0xAB2E), (0xAB30, 0xAB5A), (0xAB5C, 0xAB69),
   (0xAB70, 0xABE2), (0xABF0, 0xABF9), (0xAC00, 0xD7A3), (0xD7B0, 0xD7C6), (0xD7CB, 0xD7FB), (0xF900, 0xFA6D),
   (0xFA70, 0xFAD9), (0xFB00, 0xFB06), (0xFB13, 0xFB17), (0xFB1D, 0xFB1D), (0xFB1F, 0xFB28), (0xFB2A, 0xFB36),
   (0xFB38, 0xFB3C), (0xFB3E, 0xFB3E), (0xFB40, 0xFB41), (0xFB43, 0xFB44), (0xFB46, 0xFBB1), (0xFBD3, 0xFD3D),
   (0xFD50, 0xFD8F), (0xFD92, 0xFDC7), (0xFDF0, 0xFDFB), (0xFE70, 0xFE74), (0xFE76, 0xFEFC), (0xFF10, 0xFF19),
   (0xFF21, 0xFF3A), (0xFF41, 0xFF5A), (0xFF66, 0xFFBE), (0xFFC2, 0xFFC7), (0xFFCA, 0xFFCF), (0xFFD2, 0xFFD7),
   (0xFFDA, 0xFFDC), (0x10000, 0x1000B), (0x1000D, 0x10026), (0x10028, 0x1003A), (0x1003C, 0x1003D), (0x1003F, 0x1004D),
   (0x10050, 0x1005D), (0x10080, 0x100FA), (0x10107, 0x10133), (0x10140, 0x10178), (0x1018A, 0x1018B), (0x10280, 0x1029C),
   (0x102A0, 0x102D0), (0x102E1, 0x102FB), (0x10300, 0x10323), (0x1032D, 0x1034A), (0x10350, 0x10375), (0x10380, 0x1039D),
   (0x103A0, 0x103C3), (0x103C8, 0x103CF), (0x103D1, 0x103D5), (0x10400, 0x1049D), (0x104A0, 0x104A9), (0x104B0, 0x104D3),
   (0x104D8, 0x104FB), (0x10500, 0x10527), (0x10530, 0x10563), (0x10570, 0x1057A), (0x1057C, 0x1058A), (0x1058C, 0x10592),
   (0x10594, 0x10595), (0x10597, 0x105A1), (0x105A3, 0x105B1), (0x105B3, 0x105B9), (0x105BB, 0x105BC), (0x10600, 0x10736),
   (0x10740, 0x10755), (0x10760, 0x10767), (0x10780, 0x10785), (0x10787, 0x107B0), (0x107B2, 0x107BA), (0x10800, 0x10805),
   (0x10808, 0x10808), (0x1080A, 0x10835), (0x10837, 0x10838), (0x1083C, 0x1083C), (0x1083F, 0x10855), (0x10858, 0x10876),
   (0x10879, 0x1089E), (0x108A7, 0x108AF), (0x108E0, 0x108F2), (0x108F4, 0x108F5), (0x108FB, 0x1091B), (0x10920, 0x10939),
   (0x10980, 0x109B7), (0x109BC, 0x109CF), (0x109D2, 0x10A00), (0x10A10, 0x10A13), (0x10A15, 0x10A17), (0x10A19, 0x10A35),
   (0x10A40, 0x10A48), (0x10A60, 0x10A7E), (0x10A80, 0x10A9F), (0x10AC0, 0x10AC7), (0x10AC9, 0x10AE4), (0x10AEB, 0x10AEF),
   (0x10B00, 0x10B35), (0x10B40, 0x10B55), (0x10B58, 0x10B72), (0x10B78, 0x10B91), (0x10BA9, 0x10BAF), (0x10C00, 0x10C48),
   (0x10C80, 0x10CB2), (0x10CC0, 0x10CF2), (0x10CFA, 0x10D23), (0x10D30, 0x10D39), (0x10E60, 0x10E7E), (0x10E80, 0x10EA9),
   (0x10EB0, 0x10EB1), (0x10F00, 0x10F27), (0x10F30, 0x10F45), (0x10F51, 0x10F54), (0x10F70, 0x10F81), (0x10FB0, 0x10FCB),
   (0x10FE0, 0x10FF6), (0x11003, 0x11037), (0x11052, 0x1106F), (0x11071, 0x11072), (0x11075, 0x11075), (0x11083, 0x110AF),
   (0x110D0, 0x110E8), (0x110F0, 0x110F9), (0x11103, 0x11126), (0x11136, 0x1113F), (0x11144, 0x11144), (0x11147, 0x11147),
   (0x11150, 0x11172), (0x11176, 0x11176), (0x11183, 0x111B2), (0x111C1, 0x111C4), (0x111D0, 0x111DA), (0x111DC, 0x111DC),
   (0x111E1, 0x111F4), (0x11200, 0x11211), (0x11213, 0x1122B), (0x11280, 0x11286), (0x11288, 0x11288), (0x1128A, 0x1128D),
   (0x1128F, 0x1129D), (0x1129F, 0x112A8), (0x112B0, 0x112DE), (0x112F0, 0x112F9), (0x11305, 0x1130C), (0x1130F, 0x11310),
   (0x11313, 0x11328), (0x1132A, 0x11330), (0x11332, 0x11333), (0x11335, 0x11339), (0x1133D, 0x1133D), (0x11350, 0x11350),
   (0x1135D, 0x11361), (0x11400, 0x11434), (0x11447, 0x1144A), (0x11450, 0x11459), (0x1145F, 0x11461), (0x11480, 0x114AF),
   (0x114C4, 0x114C5), (0x114C7, 0x114C7), (0x114D0, 0x114D9), (0x11580, 0x115AE), (0x115D8, 0x115DB), (0x11600, 0x1162F),
   (0x11644, 0x11644), (0x11650, 0x11659), (0x11680, 0x116AA), (0x116B8, 0x116B8), (0x116C0, 0x116C9), (0x11700, 0x1171A),
   (0x11730, 0x1173B), (0x11740, 0x11746), (0x11800, 0x1182B), (0x118A0, 0x118F2), (0x118FF, 0x11906), (0x11909, 0x11909),
   (0x1190C, 0x11913), (0x11915, 0x11916), (0x11918, 0x1192F), (0x1193F, 0x1193F), (0x11941, 0x11941), (0x11950, 0x11959),
   (0x119A0, 0x119A7), (0x119AA, 0x119D0), (0x119E1, 0x119E1), (0x119E3, 0x119E3), (0x11A00, 0x11A00), (0x11A0B, 0x11A32),
   (0x11A3A, 0x11A3A), (0x11A50, 0x11A50), (0x11A5C, 0x11A89), (0x11A9D, 0x11A9D), (0x11AB0, 0x11AF8), (0x11C00, 0x11C08),
   (0x11C0A, 0x11C2E), (0x11C40, 0x11C40), (0x11C50, 0x11C6C), (0x11C72, 0x11C8F), (0x11D00, 0x11D06), (0x11D08, 0x11D09),
   (0x11D0B, 0x11D30), (0x11D46, 0x11D46), (0x11D50, 0x11D59), (0x11D60, 0x11D65), (0x11D67, 0x11D68), (0x11D6A, 0x11D89),
   (0x11D98, 0x11D98), (0x11DA0, 0x11DA9), (0x11EE0, 0x11EF2), (0x11FB0, 0x11FB0), (0x11FC0, 0x11FD4), (0x12000, 0x12399),
   (0x12400, 0x1246E), (0x12480, 0x12543), (0x12F90, 0x12FF0), (0x13000, 0x1342E), (0x14400, 0x14646), (0x16800, 0x16A38),
   (0x16A40, 0x16A5E), (0x16A60, 0x16A69), (0x16A70, 0x16ABE), (0x16AC0, 0x16AC9), (0x16AD0, 0x16AED), (0x16B00, 0x16B2F),
   (0x16B40, 0x16B43), (0x16B50, 0x16B59), (0x16B5B, 0x16B61), (0x16B63, 0x16B77), (0x16B7D, 0x16B8F), (0x16E40, 0x16E96),
   (0x16F00, 0x16F4A), (0x16F50, 0x16F50), (0x16F93, 0x16F9F), (0x16FE0, 0x16FE1), (0x16FE3, 0x16FE3), (0x17000, 0x187F7),
   (0x18800, 0x18CD5), (0x18D00, 0x18D08), (0x1AFF0, 0x1AFF3), (0x1AFF5, 0x1AFFB), (0x1AFFD, 0x1AFFE), (0x1B000, 0x1B122),
   (0x1B150, 0x1B152), (0x1B164, 0x1B167), (0x1B170, 0x1B2FB), (0x1BC00, 0x1BC6A), (0x1BC70, 0x1BC7C), (0x1BC80, 0x1BC88),
   (0x1BC90, 0x1BC99), (0x1D2E0, 0x1D2F3), (0x1D360, 0x1D378), (0x1D400, 0x1D454), (0x1D456, 0x1D49C), (0x1D49E, 0x1D49F),
   (0x1D4A2, 0x1D4A2), (0x1D4A5, 0x1D4A6), (0x1D4A9, 0x1D4AC), (0x1D4AE, 0x1D4B9), (0x1D4BB, 0x1D4BB), (0x1D4BD, 0x1D4C3),
   (0x1D4C5, 0x1D505), (0x1D507, 0x1D50A), (0x1D50D, 0x1D514), (0x1D516, 0x1D51C), (0x1D51E, 0x1D539), (0x1D53B, 0x1D53E),
   (0x1D540, 0x1D544), (0x1D546, 0x1D546), (0x1D54A, 0x1D550), (0x1D552, 0x1D6A5), (0x1D6A8, 0x1D6C0), (0x1D6C2, 0x1D6DA),
   (0x1D6DC, 0x1D6FA), (0x1D6FC, 0x1D714), (0x1D716, 0x1D734), (0x1D736, 0x1D74E), (0x1D750, 0x1D76E), (0x1D770, 0x1D788),
   (0x1D78A, 0x1D7A8), (0x1D7AA, 0x1D7C2), (0x1D7C4, 0x1D7CB), (0x1D7CE, 0x1D7FF), (0x1DF00, 0x1DF1E), (0x1E100, 0x1E12C),
   (0x1E137, 0x1E13D), (0x1E140, 0x1E149), (0x1E14E, 0x1E14E), (0x1E290, 0x1E2AD), (0x1E2C0, 0x1E2EB), (0x1E2F0, 0x1E2F9),
   (0x1E7E0, 0x1E7E6), (0x1E7E8, 0x1E7EB), (0x1E7ED, 0x1E7EE), (0x1E7F0, 0x1E7FE), (0x1E800, 0x1E8C4), (0x1E8C7, 0x1E8CF),
   (0x1E900, 0x1E943), (0x1E94B, 0x1E94B), (0x1E950, 0x1E959), (0x1EC71, 0x1ECAB), (0x1ECAD, 0x1ECAF), (0x1ECB1, 0x1ECB4),
   (0x1ED01, 0x1ED2D), (0x1ED2F, 0x1ED3D), (0x1EE00, 0x1EE03), (0x1EE05, 0x1EE1F), (0x1EE21, 0x1EE22), (0x1EE24, 0x1EE24),
   (0x1EE27, 0x1EE27), (0x1EE29, 0x1EE32), (0x1EE34, 0x1EE37), (0x1EE39, 0x1EE39), (0x1EE3B, 0x1EE3B), (0x1EE42, 0x1EE42),
   (0x1EE47, 0x1EE47), (0x1EE49, 0x1EE49), (0x1EE4B, 0x1EE4B), (0x1EE4D, 0x1EE4F), (0x1EE51, 0x1EE52), (0x1EE54, 0x1EE54),
   (0x1EE57, 0x1EE57), (0x1EE59, 0x1EE59), (0x1EE5B, 0x1EE5B), (0x1EE5D, 0x1EE5D), (0x1EE5F, 0x1EE5F), (0x1EE61, 0x1EE62),
   (0x1EE64, 0x1EE64), (0x1EE67, 0x1EE6A), (0x1EE6C, 0x1EE72), (0x1EE74, 0x1EE77), (0x1EE79, 0x1EE7C), (0x1EE7E, 0x1EE7E),
   (0x1EE80, 0x1EE89), (0x1EE8B, 0x1EE9B), (0x1EEA1, 0x1EEA3), (0x1EEA5, 0x1EEA9), (0x1EEAB, 0x1EEBB), (0x1F100, 0x1F10C),
   (0x1FBF0, 0x1FBF9), (0x20000, 0x2A6DF), (0x2A700, 0x2B738), (0x2B740, 0x2B81D), (0x2B820, 0x2CEA1), (0x2CEB0, 0x2EBE0),
   (0x2F800, 0x2FA1D), (0x30000, 0x3134A)]"

definition is_space :: "nat \<Rightarrow> bool" where
  "is_space c = in_ranges c space_ranges"

definition is_digit :: "nat \<Rightarrow> bool" where
  "is_digit c = in_ranges c digit_ranges"

definition is_word :: "nat \<Rightarrow> bool" where
  "is_word c = in_ranges c word_ranges"

text \<open>
  An entry \<open>(lo, hi, step, target)\<close> of the lowercase table maps \<open>lo\<close>,
  \<open>lo + step\<close>, ... up to \<open>hi\<close> to \<open>target\<close>, \<open>target + step\<close>, ...
\<close>

definition lower_table :: "(nat \<times> nat \<times> nat \<times> nat) list" where
  "lower_table = [
   (0x41, 0x5A, 1, 0x61), (0xC0, 0xD6, 1, 0xE0), (0xD8, 0xDE, 1, 0xF8), (0x100, 0x12E, 2, 0x101),
   (0x130, 0x130, 1, 0x69), (0x132, 0x136, 2, 0x133), (0x139, 0x147, 2, 0x13A), (0x14A, 0x176, 2, 0x14B),
   (0x178, 0x178, 1, 0xFF), (0x179, 0x17D, 2, 0x17A), (0x181, 0x181, 1, 0x253), (0x182, 0x184, 2, 0x183),
   (0x186, 0x186, 1, 0x254), (0x187, 0x187, 1, 0x188), (0x189, 0x18A, 1, 0x256), (0x18B, 0x18B, 1, 0x18C),
   (0x18E, 0x18E, 1, 0x1DD), (0x18F, 0x18F, 1, 0x259), (0x190, 0x190, 1, 0x25B), (0x191, 0x191, 1, 0x192),
   (0x193, 0x193, 1, 0x260), (0x194, 0x194, 1, 0x263), (0x196, 0x196, 1, 0x269), (0x197, 0x197, 1, 0x268),
   (0x198, 0x198, 1, 0x199), (0x19C, 0x19C, 1, 0x26F), (0x19D, 0x19D, 1, 0x272), (0x19F, 0x19F, 1, 0x275),
   (0x1A0, 0x1A4, 2, 0x1A1), (0x1A6, 0x1A6, 1, 0x280), (0x1A7, 0x1A7, 1, 0x1A8), (0x1A9, 0x1A9, 1, 0x283),
   (0x1AC, 0x1AC, 1, 0x1AD), (0x1AE, 0x1AE, 1, 0x288), (0x1AF, 0x1AF, 1, 0x1B0), (0x1B1, 0x1B2, 1, 0x28A),
   (0x1B3, 0x1B5, 2, 0x1B4), (0x1B7, 0x1B7, 1, 0x292), (0x1B8, 0x1B8, 1, 0x1B9), (0x1BC, 0x1BC, 1, 0x1BD),
   (0x1C4, 0x1C4, 1, 0x1C6), (0x1C5, 0x1C5, 1, 0x1C6), (0x1C7, 0x1C7, 1, 0x1C9), (0x1C8, 0x1C8, 1, 0x1C9),
   (0x1CA, 0x1CA, 1, 0x1CC), (0x1CB, 0x1DB, 2, 0x1CC), (0x1DE, 0x1EE, 2, 0x1DF), (0x1F1, 0x1F1, 1, 0x1F3),
   (0x1F2, 0x1F4, 2, 0x1F3), (0x1F6, 0x1F6, 1, 0x195), (0x1F7, 0x1F7, 1, 0x1BF), (0x1F8, 0x21E, 2, 0x1F9),
   (0x220, 0x220, 1, 0x19E), (0x222, 0x232, 2, 0x223), (0x23A, 0x23A, 1, 0x2C65), (0x23B, 0x23B, 1, 0x23C),
   (0x23D, 0x23D, 1, 0x19A), (0x23E, 0x23E, 1, 0x2C66), (0x241, 0x241, 1, 0x242), (0x243, 0x243, 1, 0x180),
   (0x244, 0x244, 1, 0x289), (0x245, 0x245, 1, 0x28C), (0x246, 0x24E, 2, 0x247), (0x370, 0x372, 2, 0x371),
   (0x376, 0x376, 1, 0x377), (0x37F, 0x37F, 1, 0x3F3), (0x386, 0x386, 1, 0x3AC), (0x388, 0x38A, 1, 0x3AD),
   (0x38C, 0x38C, 1, 0x3CC), (0x38E, 0x38F, 1, 0x3CD), (0x391, 0x3A1, 1, 0x3B1), (0x3A3, 0x3AB, 1, 0x3C3),
   (0x3CF, 0x3CF, 1, 0x3D7), (0x3D8, 0x3EE, 2, 0x3D9), (0x3F4, 0x3F4, 1, 0x3B8), (0x3F7, 0x3F7, 1, 0x3F8),
   (0x3F9, 0x3F9, 1, 0x3F2), (0x3FA, 0x3FA, 1, 0x3FB), (0x3FD, 0x3FF, 1, 0x37B), (0x400, 0x40F, 1, 0x450),
   (0x410, 0x42F, 1, 0x430), (0x460, 0x480, 2, 0x461), (0x48A, 0x4BE, 2, 0x48B), (0x4C0, 0x4C0, 1, 0x4CF),
   (0x4C1, 0x4CD, 2, 0x4C2), (0x4D0, 0x52E, 2, 0x4D1), (0x531, 0x556, 1, 0x561), (0x10A0, 0x10C5, 1, 0x2D00),
   (0x10C7, 0x10C7, 1, 0x2D27), (0x10CD, 0x10CD, 1, 0x2D2D), (0x13A0, 0x13EF, 1, 0xAB70), (0x13F0, 0x13F5, 1, 0x13F8),
   (0x1C90, 0x1CBA, 1, 0x10D0), (0x1CBD, 0x1CBF, 1, 0x10FD), (0x1E00, 0x1E94, 2, 0x1E01), (0x1E9E, 0x1E9E, 1, 0xDF),
   (0x1EA0, 0x1EFE, 2, 0x1EA1), (0x1F08, 0x1F0F, 1, 0x1F00), (0x1F18, 0x1F1D, 1, 0x1F10), (0x1F28, 0x1F2F, 1, 0x1F20),
   (0x1F38, 0x1F3F, 1, 0x1F30), (0x1F48, 0x1F4D, 1, 0x1F40), (0x1F59, 0x1F5F, 2, 0x1F51), (0x1F68, 0x1F6F, 1, 0x1F60),
   (0x1F88, 0x1F8F, 1, 0x1F80), (0x1F98, 0x1F9F, 1, 0x1F90), (0x1FA8, 0x1FAF, 1, 0x1FA0), (0x1FB8, 0x1FB9, 1, 0x1FB0),
   (0x1FBA, 0x1FBB, 1, 0x1F70), (0x1FBC, 0x1FBC, 1, 0x1FB3), (0x1FC8, 0x1FCB, 1, 0x1F72), (0x1FCC, 0x1FCC, 1, 0x1FC3),
   (0x1FD8, 0x1FD9, 1, 0x1FD0), (0x1FDA, 0x1FDB, 1, 0x1F76), (0x1FE8, 0x1FE9, 1, 0x1FE0), (0x1FEA, 0x1FEB, 1, 0x1F7A),
   (0x1FEC, 0x1FEC, 1, 0x1FE5), (0x1FF8, 0x1FF9, 1, 0x1F78), (0x1FFA, 0x1FFB, 1, 0x1F7C), (0x1FFC, 0x1FFC, 1, 0x1FF3),
   (0x2126, 0x2126, 1, 0x3C9), (0x212A, 0x212A, 1, 0x6B), (0x212B, 0x212B, 1, 0xE5), (0x2132, 0x2132, 1, 0x214E),
   (0x2160, 0x216F, 1, 0x2170), (0x2183, 0x2183, 1, 0x2184), (0x24B6, 0x24CF, 1, 0x24D0), (0x2C00, 0x2C2F, 1, 0x2C30),
   (0x2C60, 0x2C60, 1, 0x2C61), (0x2C62, 0x2C62, 1, 0x26B), (0x2C63, 0x2C63, 1, 0x1D7D), (0x2C64, 0x2C64, 1, 0x27D),
   (0x2C67, 0x2C6B, 2, 0x2C68), (0x2C6D, 0x2C6D, 1, 0x251), (0x2C6E, 0x2C6E, 1, 0x271), (0x2C6F, 0x2C6F, 1, 0x250),
   (0x2C70, 0x2C70, 1, 0x252), (0x2C72, 0x2C72, 1, 0x2C73), (0x2C75, 0x2C75, 1, 0x2C76), (0x2C7E, 0x2C7F, 1, 0x23F),
   (0x2C80, 0x2CE2, 2, 0x2C81), (0x2CEB, 0x2CED, 2, 0x2CEC), (0x2CF2, 0x2CF2, 1, 0x2CF3), (0xA640, 0xA66C, 2, 0xA641),
   (0xA680, 0xA69A, 2, 0xA681), (0xA722, 0xA72E, 2, 0xA723), (0xA732, 0xA76E, 2, 0xA733), (0xA779, 0xA77B, 2, 0xA77A),
   (0xA77D, 0xA77D, 1, 0x1D79), (0xA77E, 0xA786, 2, 0xA77F), (0xA78B, 0xA78B, 1, 0xA78C), (0xA78D, 0xA78D, 1, 0x265),
   (0xA790, 0xA792, 2, 0xA791), (0xA796, 0xA7A8, 2, 0xA797), (0xA7AA, 0xA7AA, 1, 0x266), (0xA7AB, 0xA7AB, 1, 0x25C),
   (0xA7AC, 0xA7AC, 1, 0x261), (0xA7AD, 0xA7AD, 1, 0x26C), (0xA7AE, 0xA7AE, 1, 0x26A), (0xA7B0, 0xA7B0, 1, 0x29E),
   (0xA7B1, 0xA7B1, 1, 0x287), (0xA7B2, 0xA7B2, 1, 0x29D), (0xA7B3, 0xA7B3, 1, 0xAB53), (0xA7B4, 0xA7C2, 2, 0xA7B5),
   (0xA7C4, 0xA7C4, 1, 0xA794), (0xA7C5, 0xA7C5, 1, 0x282), (0xA7C6, 0xA7C6, 1, 0x1D8E), (0xA7C7, 0xA7C9, 2, 0xA7C8),
   (0xA7D0, 0xA7D0, 1, 0xA7D1), (0xA7D6, 0xA7D8, 2, 0xA7D7), (0xA7F5, 0xA7F5, 1, 0xA7F6), (0xFF21, 0xFF3A, 1, 0xFF41),
   (0x10400, 0x10427, 1, 0x10428), (0x104B0, 0x104D3, 1, 0x104D8), (0x10570, 0x1057A, 1, 0x10597), (0x1057C, 0x1058A, 1, 0x105A3),
   (0x1058C, 0x10592, 1, 0x105B3), (0x10594, 0x10595, 1, 0x105BB), (0x10C80, 0x10CB2, 1, 0x10CC0), (0x118A0, 0x118BF, 1, 0x118C0),
   (0x16E40, 0x16E5F, 1, 0x16E60), (0x1E900, 0x1E921, 1, 0x1E922)]"

fun lower_lookup :: "nat \<Rightarrow> (nat \<times> nat \<times> nat \<times> nat) list \<Rightarrow> nat" where
  "lower_lookup c [] = c"
| "lower_lookup c ((lo, hi, st, t) # rs) =
     (if c < lo then c
      else if c \<le> hi \<and> (c - lo) mod st = 0 then t + (c - lo)
      else lower_lookup c rs)"

definition tolower :: "nat \<Rightarrow> nat" where
  "tolower c = lower_lookup c lower_table"

text \<open>
  \<open>str.lower()\<close> is the simple mapping applied to every code point, except that
  U+0130 becomes the two code points U+0069 U+0307. (CPython also turns a word-final
  U+03A3 into U+03C2 instead of U+03C3; the program only searches lowered text for its
  own keywords, none of which has a sigma.)
\<close>

definition str_lower :: "ustr \<Rightarrow> ustr" where
  "str_lower s = concat (map (\<lambda>c. if c = 0x130 then [0x69, 0x307] else [tolower c]) s)"

text \<open>
  Under \<open>re.IGNORECASE\<close> a literal \<open>p\<close> of a pattern matches the code point
  \<open>c\<close> when both have the same simple lowercase, or when the lowercase of \<open>c\<close>
  is in the same group of the engine's table of extra case equivalents.
\<close>

definition casefix :: "nat list list" where
  "casefix = [
   [0x69, 0x131],
   [0x73, 0x17F],
   [0xB5, 0x3BC],
   [0x345, 0x3B9, 0x1FBE],
   [0x390, 0x1FD3],
   [0x3B0, 0x1FE3],
   [0x3B2, 0x3D0],
   [0x3B5, 0x3F5],
   [0x3B8, 0x3D1],
   [0x3BA, 0x3F0],
   [0x3C0, 0x3D6],
   [0x3C1, 0x3F1],
   [0x3C2, 0x3C3],
   [0x3C6, 0x3D5],
   [0x432, 0x1C80],
   [0x434, 0x1C81],
   [0x43E, 0x1C82],
   [0x441, 0x1C83],
   [0x442, 0x1C84, 0x1C85],
   [0x44A, 0x1C86],
   [0x463, 0x1C87],
   [0x1C88, 0xA64B],
   [0x1E61, 0x1E9B],
   [0xFB05, 0xFB06]]"

definition ci_match :: "nat \<Rightarrow> nat \<Rightarrow> bool" where
  "ci_match p c =
     (if tolower c = tolower p then True
      else list_ex (\<lambda>g. tolower p \<in> set g \<and> tolower c \<in> set g) casefix)"

subsection \<open>String operations of the Python library\<close>

definition str_strip :: "ustr \<Rightarrow> ustr" where
  "str_strip s = rev (dropWhile is_space (rev (dropWhile is_space s)))"

fun str_startswith :: "ustr \<Rightarrow> ustr \<Rightarrow> bool" where
  "str_startswith s [] = True"
| "str_startswith [] (p # ps) = False"
| "str_startswith (c # cs) (p # ps) = (if c = p then str_startswith cs ps else False)"

text \<open>\<open>str_in p s\<close> is Python's \<open>p in s\<close>: \<open>p\<close> occurs in \<open>s\<close> as a substring.\<close>

fun str_in :: "ustr \<Rightarrow> ustr \<Rightarrow> bool" where
  "str_in p [] = (p = [])"
| "str_in p (c # cs) = (if str_startswith (c # cs) p then True else str_in p cs)"

fun str_join :: "ustr \<Rightarrow> ustr list \<Rightarrow> ustr" where
  "str_join sep [] = []"
| "str_join sep [x] = x"
| "str_join sep (x # y # ys) = x @ sep @ str_join sep (y # ys)"

text \<open>Decimal rendering of a non-negative integer, as an f-string does.\<close>

fun str_of_nat :: "nat \<Rightarrow> ustr" where
  "str_of_nat n = (if n < 10 then [48 + n] else str_of_nat (n div 10) @ [48 + n mod 10])"

text \<open>The format \<open>{n:02d}\<close>: at least two digits, padded with a zero.\<close>

definition str_02d :: "nat \<Rightarrow> ustr" where
  "str_02d n = (if n < 10 then 48 # str_of_nat n else str_of_nat n)"

section \<open>Regular expressions\<close>

text \<open>
  The patterns of the program are values of \<open>rx\<close>, matched by backtracking in the
  order of Python's \<open>re\<close> engine. A character set is a list of \<open>cc\<close> items;
  \<open>AnyC\<close> is the dot under \<open>re.DOTALL\<close> (every pattern with a dot is used with
  that flag), \<open>ChI\<close> a literal under \<open>re.IGNORECASE\<close>.
\<close>

datatype cc = Ch nat | ChI nat | Rng nat nat | Digit | Space | Word | AnyC

fun cc_match :: "cc \<Rightarrow> nat \<Rightarrow> bool" where
  "cc_match (Ch p) c = (c = p)"
| "cc_match (ChI p) c = ci_match p c"
| "cc_match (Rng lo hi) c = (lo \<le> c \<and> c \<le> hi)"
| "cc_match Digit c = is_digit c"
| "cc_match Space c = is_space c"
| "cc_match Word c = is_word c"
| "cc_match AnyC c = True"

fun cc_any :: "cc list \<Rightarrow> nat \<Rightarrow> bool" where
  "cc_any [] c = False"
| "cc_any (k # ks) c = (if cc_match k c then True else cc_any ks c)"

text \<open>
  \<open>Rep greedy m r\<close> is \<open>r\<close> repeated at least \<open>m\<close> times: \<open>r*\<close>, \<open>r+\<close>,
  \<open>r{m,}\<close> when greedy, \<open>r*?\<close>, \<open>r+?\<close> when not. \<open>Grp\<close> is the capturing
  group (no pattern of the program has more than one), \<open>Ahead\<close> the lookahead
  \<open>(?=r)\<close>, \<open>Bol\<close> and \<open>Eol\<close> the anchors \<open>^\<close> and \<open>$\<close> without
  \<open>re.MULTILINE\<close>.
\<close>

datatype rx = Eps | One "cc list" | Cat rx rx | Alt rx rx | Rep bool nat rx
  | Grp rx | Ahead rx | Bol | Eol

text \<open>
  A matching state is the number of code points consumed so far, the rest of the text
  and the text captured by the group, if any. \<open>rm r st\<close> lists the states in which a
  match of \<open>r\<close> started in \<open>st\<close> can end, in the order in which the backtracking
  engine tries them, so the head of the list is the match that Python reports. An
  iteration of \<open>Rep\<close> counts only if it consumes text; every repeated item of the
  program's patterns is a single character set.
\<close>

type_synonym mstate = "nat \<times> ustr \<times> ustr option"

function (sequential) rm :: "rx \<Rightarrow> mstate \<Rightarrow> mstate list" where
  "rm Eps st = [st]"
| "rm (One cs) (i, t, g) =
     (case t of [] \<Rightarrow> [] | c # t' \<Rightarrow> if cc_any cs c then [(Suc i, t', g)] else [])"
| "rm (Cat a b) st = concat (map (rm b) (rm a st))"
| "rm (Alt a b) st = rm a st @ rm b st"
| "rm (Grp a) (i, t, g) =
     map (\<lambda>(j, t', _). (j, t', Some (take (length t - length t') t))) (rm a (i, t, g))"
| "rm (Ahead a) st = (if rm a st = [] then [] else [st])"
| "rm Bol (i, t, g) = (if i = 0 then [(i, t, g)] else [])"
| "rm Eol (i, t, g) = (if t = [] \<or> t = [10] then [(i, t, g)] else [])"
| "rm (Rep greedy m a) (i, t, g) =
     (if greedy
      then concat (map (rm (Rep greedy (m - 1) a))
             (filter (\<lambda>(j, t', _). length t' < length t) (rm a (i, t, g))))
           @ (if m = 0 then [(i, t, g)] else [])
      else (if m = 0 then [(i, t, g)] else [])
           @ concat (map (rm (Rep greedy (m - 1) a))
               (filter (\<lambda>(j, t', _). length t' < length t) (rm a (i, t, g)))))"
  by pat_completeness auto
termination
  by (relation "inv_image (less_than <*lex*> less_than) (\<lambda>(r, (i, t, g)). (size r, length t))")
     auto

text \<open>Building patterns: a literal string, a sequence, an alternation.\<close>

definition lit :: "ustr \<Rightarrow> rx" where
  "lit s = foldr (\<lambda>c r. Cat (One [Ch c]) r) s Eps"

definition lit_i :: "ustr \<Rightarrow> rx" where
  "lit_i s = foldr (\<lambda>c r. Cat (One [ChI c]) r) s Eps"

definition cats :: "rx list \<Rightarrow> rx" where
  "cats rs = foldr Cat rs Eps"

definition alts :: "rx list \<Rightarrow> rx" where
  "alts rs = foldr Alt rs (One [])"

fun has_grp :: "rx \<Rightarrow> bool" where
  "has_grp (Grp a) = True"
| "has_grp (Cat a b) = (has_grp a \<or> has_grp b)"
| "has_grp (Alt a b) = (has_grp a \<or> has_grp b)"
| "has_grp (Rep greedy m a) = has_grp a"
| "has_grp (Ahead a) = has_grp a"
| "has_grp r = False"

text \<open>\<open>re.match\<close>: a match at the start of the string; only its success is used.\<close>

definition re_match :: "rx \<Rightarrow> ustr \<Rightarrow> bool" where
  "re_match r s = (rm r (0, s, None) \<noteq> [])"

text \<open>
  \<open>re.search\<close>: the first position with a match; the result is \<open>group(1)\<close> of the
  match (the empty string stands for a group that took no part).
\<close>

fun search_from :: "rx \<Rightarrow> nat \<Rightarrow> ustr \<Rightarrow> ustr option" where
  "search_from r i [] =
     (case rm r (i, [], None) of [] \<Rightarrow> None
      | (j, t', g) # _ \<Rightarrow> Some (case g of None \<Rightarrow> [] | Some x \<Rightarrow> x))"
| "search_from r i (c # t) =
     (case rm r (i, c # t, None) of [] \<Rightarrow> search_from r (Suc i) t
      | (j, t', g) # _ \<Rightarrow> Some (case g of None \<Rightarrow> [] | Some x \<Rightarrow> x))"

definition re_search :: "rx \<Rightarrow> ustr \<Rightarrow> ustr option" where
  "re_search r s = search_from r 0 s"

text \<open>
  The matches from left to right, without overlap, each as the matched text and the
  text of the group. After a match the scan goes on where the match ended (one code
  point further after an empty match).
\<close>

function finditer :: "rx \<Rightarrow> nat \<Rightarrow> ustr \<Rightarrow> (ustr \<times> ustr option) list" where
  "finditer r i t =
     (case rm r (i, t, None) of
        [] \<Rightarrow> (case t of [] \<Rightarrow> [] | c # t' \<Rightarrow> finditer r (Suc i) t')
      | (j, t', g) # _ \<Rightarrow>
          (take (length t - length t') t, g) #
          (if length t' < length t then finditer r j t'
           else case t of [] \<Rightarrow> [] | c # t'' \<Rightarrow> finditer r (Suc i) t''))"
  by pat_completeness auto
termination
  by (relation "measure (\<lambda>(r, i, t). length t)") auto

text \<open>
  \<open>re.findall\<close>: with a group in the pattern the result lists the text of the group
  of each match, without one the matched texts.
\<close>

definition re_findall :: "rx \<Rightarrow> ustr \<Rightarrow> ustr list" where
  "re_findall r s =
     map (\<lambda>(w, g). if has_grp r then (case g of None \<Rightarrow> [] | Some x \<Rightarrow> x) else w)
       (finditer r 0 s)"

text \<open>\<open>re.sub\<close> with a replacement that has no escapes.\<close>

function subiter :: "rx \<Rightarrow> ustr \<Rightarrow> nat \<Rightarrow> ustr \<Rightarrow> ustr" where
  "subiter r repl i t =
     (case rm r (i, t, None) of
        [] \<Rightarrow> (case t of [] \<Rightarrow> [] | c # t' \<Rightarrow> c # subiter r repl (Suc i) t')
      | (j, t', g) # _ \<Rightarrow>
          repl @
          (if length t' < length t then subiter r repl j t'
           else case t of [] \<Rightarrow> [] | c # t'' \<Rightarrow> c # subiter r repl (Suc i) t''))"
  by pat_completeness auto
termination
  by (relation "measure (\<lambda>(r, repl, i, t). length t)") auto

definition re_sub :: "rx \<Rightarrow> ustr \<Rightarrow> ustr \<Rightarrow> ustr" where
  "re_sub r repl s = subiter r repl 0 s"

section \<open>The literals of the program\<close>

text \<open>
  The Chinese string literals of the source, by their code points. The name gives the
  pinyin reading.
\<close>

abbreviation zh_wenti :: ustr where \<comment> \<open>wen ti, problem\<close>
  "zh_wenti \<equiv> [0x95EE, 0x9898]"

abbreviation zh_jiejue :: ustr where \<comment> \<open>jie jue, solve\<close>
  "zh_jiejue \<equiv> [0x89E3, 0x51B3]"

abbreviation zh_buzhou :: ustr where \<comment> \<open>bu zhou, step\<close>
  "zh_buzhou \<equiv> [0x6B65, 0x9AA4]"

abbreviation zh_fangfa :: ustr where \<comment> \<open>fang fa, method\<close>
  "zh_fangfa \<equiv> [0x65B9, 0x6CD5]"

abbreviation zh_shezhi :: ustr where \<comment> \<open>she zhi, set up\<close>
  "zh_shezhi \<equiv> [0x8BBE, 0x7F6E]"

abbreviation zh_peizhi :: ustr where \<comment> \<open>pei zhi, configure\<close>
  "zh_peizhi \<equiv> [0x914D, 0x7F6E]"

abbreviation zh_jiejuefangan :: ustr where \<comment> \<open>jie jue fang an, solution\<close>
  "zh_jiejuefangan \<equiv> [0x89E3, 0x51B3, 0x65B9, 0x6848]"

abbreviation zh_zhuyi :: ustr where \<comment> \<open>zhu yi, note\<close>
  "zh_zhuyi \<equiv> [0x6CE8, 0x610F]"

abbreviation zh_di :: ustr where \<comment> \<open>di, ordinal prefix\<close>
  "zh_di \<equiv> [0x7B2C]"

abbreviation zh_ye :: ustr where \<comment> \<open>ye, page\<close>
  "zh_ye \<equiv> [0x9875]"

abbreviation zh_numerals :: ustr where \<comment> \<open>the numerals one to ten\<close>
  "zh_numerals \<equiv> [0x4E00, 0x4E8C, 0x4E09, 0x56DB, 0x4E94, 0x516D, 0x4E03, 0x516B, 0x4E5D, 0x5341]"

abbreviation zh_zhangjiebufen :: ustr where \<comment> \<open>zhang, jie, bu, fen\<close>
  "zh_zhangjiebufen \<equiv> [0x7AE0, 0x8282, 0x90E8, 0x5206]"

abbreviation zh_daan :: ustr where \<comment> \<open>da an, answer\<close>
  "zh_daan \<equiv> [0x7B54, 0x6848]"

abbreviation zh_guzhang :: ustr where \<comment> \<open>gu zhang, fault\<close>
  "zh_guzhang \<equiv> [0x6545, 0x969C]"

abbreviation zh_cuowu :: ustr where \<comment> \<open>cuo wu, error\<close>
  "zh_cuowu \<equiv> [0x9519, 0x8BEF]"

abbreviation zh_xiufu :: ustr where \<comment> \<open>xiu fu, repair\<close>
  "zh_xiufu \<equiv> [0x4FEE, 0x590D]"

abbreviation zh_chuli :: ustr where \<comment> \<open>chu li, handle\<close>
  "zh_chuli \<equiv> [0x5904, 0x7406]"

abbreviation zh_ruhe :: ustr where \<comment> \<open>ru he, how to\<close>
  "zh_ruhe \<equiv> [0x5982, 0x4F55]"

abbreviation zh_zenyang :: ustr where \<comment> \<open>zen yang, how\<close>
  "zh_zenyang \<equiv> [0x600E, 0x6837]"

abbreviation zh_shenme :: ustr where \<comment> \<open>shen me, what\<close>
  "zh_shenme \<equiv> [0x4EC0, 0x4E48]"

abbreviation zh_weishenme :: ustr where \<comment> \<open>wei shen me, why\<close>
  "zh_weishenme \<equiv> [0x4E3A, 0x4EC0, 0x4E48]"

abbreviation zh_ruhejiejue :: ustr where \<comment> \<open>ru he jie jue, how to solve\<close>
  "zh_ruhejiejue \<equiv> [0x5982, 0x4F55, 0x89E3, 0x51B3]"

abbreviation zh_ruhejinxing :: ustr where \<comment> \<open>ru he jin xing, how to carry out\<close>
  "zh_ruhejinxing \<equiv> [0x5982, 0x4F55, 0x8FDB, 0x884C]"

abbreviation zh_liucheng :: ustr where \<comment> \<open>liu cheng, procedure\<close>
  "zh_liucheng \<equiv> [0x6D41, 0x7A0B]"

abbreviation zh_xiangguanwenti :: ustr where \<comment> \<open>xiang guan wen ti, related question\<close>
  "zh_xiangguanwenti \<equiv> [0x76F8, 0x5173, 0x95EE, 0x9898]"

abbreviation zh_xiaoqu :: ustr where \<comment> \<open>xiao qu, housing estate\<close>
  "zh_xiaoqu \<equiv> [0x5C0F, 0x533A]"

abbreviation zh_yonghu :: ustr where \<comment> \<open>yong hu, user\<close>
  "zh_yonghu \<equiv> [0x7528, 0x6237]"

abbreviation tok_riqi :: ustr where \<comment> \<open>[ri qi], the date token\<close>
  "tok_riqi \<equiv> [0x005B, 0x65E5, 0x671F, 0x005D]"

abbreviation tok_shuzi :: ustr where \<comment> \<open>[shu zi], the number token\<close>
  "tok_shuzi \<equiv> [0x005B, 0x6570, 0x5B57, 0x005D]"

abbreviation tok_xiaoqumingcheng :: ustr where \<comment> \<open>[xiao qu ming cheng], the estate name token\<close>
  "tok_xiaoqumingcheng \<equiv> [0x005B, 0x5C0F, 0x533A, 0x540D, 0x79F0, 0x005D]"

abbreviation tok_yonghuming :: ustr where \<comment> \<open>[yong hu ming], the user name token\<close>
  "tok_yonghuming \<equiv> [0x005B, 0x7528, 0x6237, 0x540D, 0x005D]"

abbreviation zh_wendanglaiyuan :: ustr where \<comment> \<open>wen dang lai yuan, document source, with a fullwidth colon\<close>
  "zh_wendanglaiyuan \<equiv> [0x6587, 0x6863, 0x6765, 0x6E90, 0xFF1A]"

abbreviation zh_sql_heading :: ustr where \<comment> \<open>xiang guan SQL yu ju, related SQL statements, with a fullwidth colon\<close>
  "zh_sql_heading \<equiv> [0x76F8, 0x5173, 0x0053, 0x0051, 0x004C, 0x8BED, 0x53E5, 0xFF1A]"

abbreviation zh_steps_heading :: ustr where \<comment> \<open>cao zuo bu zhou, operating steps, with a fullwidth colon\<close>
  "zh_steps_heading \<equiv> [0x64CD, 0x4F5C, 0x6B65, 0x9AA4, 0xFF1A]"

abbreviation zh_biaogebiaoti :: ustr where \<comment> \<open>biao ge biao ti, table title, with a fullwidth colon\<close>
  "zh_biaogebiaoti \<equiv> [0x8868, 0x683C, 0x6807, 0x9898, 0xFF1A]"

abbreviation zh_biaogeneirong :: ustr where \<comment> \<open>biao ge nei rong, table content, with a fullwidth colon\<close>
  "zh_biaogeneirong \<equiv> [0x8868, 0x683C, 0x5185, 0x5BB9, 0xFF1A]"

abbreviation zh_guanyu :: ustr where \<comment> \<open>guan yu, about\<close>
  "zh_guanyu \<equiv> [0x5173, 0x4E8E]"

abbreviation zh_dexiangxixinxi :: ustr where \<comment> \<open>de xiang xi xin xi, detailed information of\<close>
  "zh_dexiangxixinxi \<equiv> [0x7684, 0x8BE6, 0x7EC6, 0x4FE1, 0x606F]"

abbreviation zh_zhongdetupian :: ustr where \<comment> \<open>zhong de tu pian, picture in\<close>
  "zh_zhongdetupian \<equiv> [0x4E2D, 0x7684, 0x56FE, 0x7247]"

abbreviation zh_zheshilaizi :: ustr where \<comment> \<open>zhe shi lai zi wen dang, this is from the document, opening title mark\<close>
  "zh_zheshilaizi \<equiv> [0x8FD9, 0x662F, 0x6765, 0x81EA, 0x6587, 0x6863, 0x300A]"

abbreviation zh_dedi :: ustr where \<comment> \<open>closing title mark, de di\<close>
  "zh_dedi \<equiv> [0x300B, 0x7684, 0x7B2C]"

abbreviation zh_zhangtupian :: ustr where \<comment> \<open>zhang tu pian, picture (counted), full stop\<close>
  "zh_zhangtupian \<equiv> [0x5F20, 0x56FE, 0x7247, 0x3002]"

abbreviation zh_weiyudi :: ustr where \<comment> \<open>wei yu di, located at number\<close>
  "zh_weiyudi \<equiv> [0x4F4D, 0x4E8E, 0x7B2C]"

abbreviation zh_ye_stop :: ustr where \<comment> \<open>ye, page, full stop\<close>
  "zh_ye_stop \<equiv> [0x9875, 0x3002]"

abbreviation zh_zhanghuandengpian :: ustr where \<comment> \<open>zhang huan deng pian, slide (counted), full stop\<close>
  "zh_zhanghuandengpian \<equiv> [0x5F20, 0x5E7B, 0x706F, 0x7247, 0x3002]"

abbreviation zh_tupian :: ustr where \<comment> \<open>tu pian, picture\<close>
  "zh_tupian \<equiv> [0x56FE, 0x7247]"

abbreviation zh_tuxiang :: ustr where \<comment> \<open>tu xiang, image\<close>
  "zh_tuxiang \<equiv> [0x56FE, 0x50CF]"

abbreviation zh_gongzuobiao :: ustr where \<comment> \<open>gong zuo biao, worksheet\<close>
  "zh_gongzuobiao \<equiv> [0x5DE5, 0x4F5C, 0x8868]"

abbreviation zh_huandengpian :: ustr where \<comment> \<open>huan deng pian, slide\<close>
  "zh_huandengpian \<equiv> [0x5E7B, 0x706F, 0x7247]"

abbreviation zh_denglu :: ustr where \<comment> \<open>deng lu, log in\<close>
  "zh_denglu \<equiv> [0x767B, 0x5F55]"

abbreviation zh_shanchu :: ustr where \<comment> \<open>shan chu, delete\<close>
  "zh_shanchu \<equiv> [0x5220, 0x9664]"

abbreviation zh_gengxin :: ustr where \<comment> \<open>geng xin, update\<close>
  "zh_gengxin \<equiv> [0x66F4, 0x65B0]"

abbreviation zh_daochu :: ustr where \<comment> \<open>dao chu, export\<close>
  "zh_daochu \<equiv> [0x5BFC, 0x51FA]"

abbreviation zh_lieyin :: ustr where \<comment> \<open>lie yin, print\<close>
  "zh_lieyin \<equiv> [0x5217, 0x5370]"

abbreviation zh_jiesuo :: ustr where \<comment> \<open>jie suo, unlock\<close>
  "zh_jiesuo \<equiv> [0x89E3, 0x9501]"

abbreviation zh_anzhuang :: ustr where \<comment> \<open>an zhuang, install\<close>
  "zh_anzhuang \<equiv> [0x5B89, 0x88C5]"

abbreviation zh_zhuce :: ustr where \<comment> \<open>zhu ce, register\<close>
  "zh_zhuce \<equiv> [0x6CE8, 0x518C]"

abbreviation zh_shangchuan :: ustr where \<comment> \<open>shang chuan, upload\<close>
  "zh_shangchuan \<equiv> [0x4E0A, 0x4F20]"

abbreviation zh_xiazai :: ustr where \<comment> \<open>xia zai, download\<close>
  "zh_xiazai \<equiv> [0x4E0B, 0x8F7D]"

section \<open>Heading heuristic\<close>

text \<open>
  \<open>is_heading\<close>: the seven patterns are tried with \<open>re.match\<close> on the stripped
  text; failing those, a text of fewer than 50 code points (stripped) that contains one
  of six keywords is a heading.
\<close>

definition heading_patterns :: "rx list" where
  "heading_patterns =
    [cats [Bol, lit zh_di, Rep True 1 (One (map Ch zh_numerals @ [Digit])),
           One (map Ch zh_zhangjiebufen)],
     cats [Bol, Rep True 1 (One [Digit]), One [Ch 46, Space]],
     cats [Bol, Rep True 1 (One (map Ch zh_numerals)), One [Ch 46, Space]],
     cats [Bol, lit zh_wenti, One [Ch 58, Ch 0xFF1A]],
     cats [Bol, lit zh_jiejuefangan, One [Ch 58, Ch 0xFF1A]],
     cats [Bol, lit zh_buzhou, One [Ch 58, Ch 0xFF1A]],
     cats [Bol, lit zh_zhuyi, One [Ch 58, Ch 0xFF1A]]]"

definition heading_keywords :: "ustr list" where
  "heading_keywords = [zh_wenti, zh_jiejue, zh_buzhou, zh_fangfa, zh_shezhi, zh_peizhi]"

definition is_heading :: "ustr \<Rightarrow> bool" where
  "is_heading text =
     (if list_ex (\<lambda>pattern. re_match pattern (str_strip text)) heading_patterns then True
      else if length (str_strip text) < 50 \<and> list_ex (\<lambda>keyword. str_in keyword text) heading_keywords
      then True
      else False)"

section \<open>Question generalisation\<close>

definition date_pattern :: rx where \<comment> \<open>\<open>\d{4}-\d{2}-\d{2}\<close>\<close>
  "date_pattern =
     cats [One [Digit], One [Digit], One [Digit], One [Digit], One [Ch 45],
           One [Digit], One [Digit], One [Ch 45], One [Digit], One [Digit]]"

definition digits_pattern :: rx where \<comment> \<open>\<open>\d+\<close>\<close>
  "digits_pattern = Rep True 1 (One [Digit])"

definition estate_pattern :: rx where \<comment> \<open>\<open>xiaoqu\d+\<close>\<close>
  "estate_pattern = cats [lit zh_xiaoqu, Rep True 1 (One [Digit])]"

definition user_pattern :: rx where \<comment> \<open>\<open>yonghu\w+\<close>\<close>
  "user_pattern = cats [lit zh_yonghu, Rep True 1 (One [Word])]"

definition question_prefixes :: "ustr list" where
  "question_prefixes = [zh_ruhe, zh_zenyang, zh_shenme, zh_weishenme, zh_wenti]"

definition generalize_question :: "ustr \<Rightarrow> ustr \<Rightarrow> ustr" where
  "generalize_question question content =
     (let generalized = re_sub date_pattern tok_riqi question;
          generalized = re_sub digits_pattern tok_shuzi generalized;
          generalized = re_sub estate_pattern tok_xiaoqumingcheng generalized;
          generalized = re_sub user_pattern tok_yonghuming generalized
      in if \<not> list_ex (\<lambda>prefix. str_in prefix generalized) question_prefixes then
           (if str_in zh_shezhi content \<or> str_in zh_peizhi content then zh_ruhe @ generalized
            else if str_in zh_cuowu content \<or> str_in zh_guzhang content
              then zh_ruhejiejue @ generalized
            else if str_in zh_buzhou content \<or> str_in zh_liucheng content
              then zh_ruhejinxing @ generalized
            else generalized)
         else generalized)"

section \<open>Answer enhancement\<close>

text \<open>
  The SQL pattern \<open>(SELECT|INSERT|UPDATE|DELETE|CREATE|ALTER|DROP)\s+.*?;\<close> is
  compiled with \<open>re.IGNORECASE | re.DOTALL\<close>; its only group is the keyword.
\<close>

definition sql_pattern :: rx where
  "sql_pattern =
     cats [Grp (alts (map lit_i [u ''SELECT'', u ''INSERT'', u ''UPDATE'', u ''DELETE'',
                                 u ''CREATE'', u ''ALTER'', u ''DROP''])),
           Rep True 1 (One [Space]), Rep False 0 (One [AnyC]), One [ChI 59]]"

text \<open>
  The steps pattern, with \<open>re.DOTALL\<close>: the word for step, \<open>\s*\d+\<close>, a colon
  (ASCII or fullwidth), the group \<open>(.+?)\<close>, and the lookahead for the next step or
  the end.
\<close>

definition steps_pattern :: rx where
  "steps_pattern =
     cats [lit zh_buzhou, Rep True 0 (One [Space]), Rep True 1 (One [Digit]),
           One [Ch 58, Ch 0xFF1A], Grp (Rep False 1 (One [AnyC])),
           Ahead (alts [cats [lit zh_buzhou, Rep True 0 (One [Space]), Rep True 1 (One [Digit])],
                        Eol])]"

definition sql_fence :: "ustr \<Rightarrow> ustr" where \<comment> \<open>three backquotes, sql, the text, three backquotes\<close>
  "sql_fence sql = [96, 96, 96] @ u ''sql'' @ [10] @ sql @ [10] @ [96, 96, 96] @ [10]"

definition sql_appendix :: "ustr \<Rightarrow> ustr" where
  "sql_appendix answer =
     (let sql_matches = re_findall sql_pattern answer
      in if sql_matches \<noteq> [] then [10, 10] @ zh_sql_heading @ [10] @ concat (map sql_fence sql_matches)
         else [])"

fun numbered_steps :: "nat \<Rightarrow> ustr list \<Rightarrow> ustr" where
  "numbered_steps i [] = []"
| "numbered_steps i (step # steps) =
     str_of_nat i @ u ''. '' @ str_strip step @ [10] @ numbered_steps (Suc i) steps"

definition steps_appendix :: "ustr \<Rightarrow> ustr" where
  "steps_appendix answer =
     (if str_in zh_buzhou answer then
        (let steps = re_findall steps_pattern answer
         in if steps \<noteq> [] then [10, 10] @ zh_steps_heading @ [10] @ numbered_steps 1 steps
            else [])
      else [])"

definition enhance_answer :: "ustr \<Rightarrow> ustr \<Rightarrow> ustr" where
  "enhance_answer answer base_context =
     base_context @ [10, 10] @ answer @ sql_appendix answer @ steps_appendix answer"

section \<open>Keyword extraction\<close>

definition tech_keywords :: "ustr list" where
  "tech_keywords =
    [u ''SRMS'', u ''SQL'', u ''IE'', u ''Edge'', u ''Login'', u ''Batch'', u ''Journal'',
     u ''Demand Note'', u ''SPS'', u ''Occupant'', u ''Building ID'', u ''CashType'',
     u ''Synergis'', u ''Community App'', u ''Facility Booking'']"

definition action_keywords :: "ustr list" where
  "action_keywords =
    [zh_shezhi, zh_peizhi, zh_denglu, zh_shanchu, zh_gengxin, zh_daochu, zh_lieyin,
     zh_jiesuo, zh_xiufu, zh_chuli, zh_jiejue, zh_anzhuang, zh_zhuce, zh_shangchuan,
     zh_xiazai]"

definition cjk_run_pattern :: rx where \<comment> \<open>two or more code points of U+4E00..U+9FFF\<close>
  "cjk_run_pattern = Rep True 2 (One [Rng 0x4E00 0x9FFF])"

text \<open>
  \<open>list(set(xs))\<close> lists the distinct elements of \<open>xs\<close> in the iteration order of
  the hash table, which for strings depends on the hash seed of the running process.
  The order is a parameter of the model: a function \<open>so\<close> from the list the set is
  built from to the list read back. \<open>valid_set_order\<close> says what every run
  guarantees of it.
\<close>

type_synonym set_order = "ustr list \<Rightarrow> ustr list"

definition valid_set_order :: "set_order \<Rightarrow> bool" where
  "valid_set_order so = (\<forall>xs. distinct (so xs) \<and> set (so xs) = set xs)"

definition found_fixed :: "ustr \<Rightarrow> ustr list" where
  "found_fixed content =
     (let content_lower = str_lower content
      in filter (\<lambda>keyword. str_in (str_lower keyword) content_lower)
           (tech_keywords @ action_keywords))"

definition important_words :: "ustr \<Rightarrow> ustr list" where
  "important_words content = re_findall cjk_run_pattern content"

definition extract_keywords :: "set_order \<Rightarrow> ustr \<Rightarrow> ustr list" where
  "extract_keywords so content =
     so (found_fixed content @ take 10 (so (important_words content)))"

section \<open>Data model\<close>

text \<open>
  The dictionaries of the program, one record each. A key that only some of the
  dictionaries of a kind carry is an optional field: a table has \<open>headers\<close> and
  \<open>rows\<close> when it comes from a text document and \<open>data\<close> when it comes from a
  workbook; an image has \<open>page\<close> and \<open>index\<close>, or \<open>slide\<close>, or
  \<open>relation_id\<close>.
\<close>

record table =
  tbl_headers :: "ustr list option"
  tbl_rows :: "ustr list list option"
  tbl_data :: "ustr list list option"

record image =
  img_page :: "nat option"
  img_index :: "nat option"
  img_slide :: "nat option"
  img_data :: ustr
  img_format :: ustr
  img_relation_id :: "ustr option"

record sect =
  sec_heading :: ustr
  sec_content :: ustr
  sec_tables :: "table list"
  sec_images :: "image list"

record document =
  dc_title :: ustr
  dc_source_file :: ustr
  dc_type :: ustr
  dc_sections :: "sect list"
  dc_images :: "image list"

record qa =
  qa_question :: ustr
  qa_answer :: ustr
  qa_keywords :: "ustr list"
  qa_source :: ustr
  qa_type :: ustr
  qa_image_data :: "ustr option"
  qa_image_format :: "ustr option"

section \<open>Synthesis of question and answer pairs\<close>

definition newlines_pattern :: rx where \<comment> \<open>\<open>\n+\<close>\<close>
  "newlines_pattern = Rep True 1 (One [Ch 10])"

text \<open>The five question patterns, compiled with \<open>re.DOTALL | re.IGNORECASE\<close>.\<close>

definition question_patterns :: "rx list" where
  "question_patterns =
    [cats [lit_i zh_wenti, One [ChI 58, ChI 0xFF1A], Grp (Rep False 1 (One [AnyC])),
           Ahead (alts [lit_i zh_jiejue, lit_i zh_daan, lit_i zh_fangfa, lit_i zh_buzhou, Eol])],
     cats [lit_i zh_guzhang, One [ChI 58, ChI 0xFF1A], Grp (Rep False 1 (One [AnyC])),
           Ahead (alts [lit_i zh_jiejue, lit_i zh_xiufu, lit_i zh_chuli, Eol])],
     cats [lit_i zh_cuowu, One [ChI 58, ChI 0xFF1A], Grp (Rep False 1 (One [AnyC])),
           Ahead (alts [lit_i zh_jiejue, lit_i zh_xiufu, lit_i zh_chuli, Eol])],
     cats [lit_i zh_ruhe, Grp (Rep False 1 (One [AnyC])), Ahead (alts [lit_i [10], Eol])],
     cats [lit_i zh_zenyang, Grp (Rep False 1 (One [AnyC])), Ahead (alts [lit_i [10], Eol])]]"

text \<open>The loop over the patterns: the first that matches gives the question.\<close>

fun first_question :: "rx list \<Rightarrow> ustr \<Rightarrow> ustr option" where
  "first_question [] content = None"
| "first_question (pattern # patterns) content =
     (case re_search pattern content of
        Some g \<Rightarrow> Some (str_strip g)
      | None \<Rightarrow> first_question patterns content)"

definition extract_qa_from_text :: "set_order \<Rightarrow> ustr \<Rightarrow> ustr \<Rightarrow> ustr \<Rightarrow> qa" where
  "extract_qa_from_text so heading content base_context =
     (let content = re_sub newlines_pattern [10] (str_strip content);
          question = (case first_question question_patterns content of
                        Some q \<Rightarrow> q
                      | None \<Rightarrow> if heading \<noteq> [] then heading else zh_xiangguanwenti)
      in \<lparr>qa_question = generalize_question question content,
          qa_answer = enhance_answer content base_context,
          qa_keywords = extract_keywords so content,
          qa_source = base_context,
          qa_type = u ''text'',
          qa_image_data = None,
          qa_image_format = None\<rparr>)"

text \<open>\<open>table.get('headers', [])\<close>: the value of the key, or the default.\<close>

definition get_or :: "'a option \<Rightarrow> 'a \<Rightarrow> 'a" where
  "get_or v d = (case v of None \<Rightarrow> d | Some x \<Rightarrow> x)"

definition extract_qa_from_table :: "ustr \<Rightarrow> table \<Rightarrow> ustr \<Rightarrow> qa option" where
  "extract_qa_from_table heading table base_context =
     (let headers = get_or (tbl_headers table) [];
          rows = get_or (tbl_rows table) []
      in if headers = [] \<or> rows = [] then None
         else Some
          \<lparr>qa_question = zh_guanyu @ heading @ zh_dexiangxixinxi,
           qa_answer = zh_biaogebiaoti @ heading @ [10] @ zh_biaogeneirong @ [10]
             @ str_join (u '' | '') headers @ [10]
             @ str_join (u ''|'') (replicate (length headers) (u ''---'')) @ [10]
             @ concat (map (\<lambda>row. str_join (u '' | '') row @ [10]) rows),
           qa_keywords = headers @ [heading],
           qa_source = base_context,
           qa_type = u ''table'',
           qa_image_data = None,
           qa_image_format = None\<rparr>)"

definition create_image_qa :: "ustr \<Rightarrow> image \<Rightarrow> nat \<Rightarrow> ustr \<Rightarrow> qa" where
  "create_image_qa doc_title img index base_context =
     \<lparr>qa_question = doc_title @ zh_zhongdetupian @ str_of_nat (index + 1),
      qa_answer = zh_zheshilaizi @ doc_title @ zh_dedi @ str_of_nat (index + 1) @ zh_zhangtupian
        @ (case img_page img of
             Some n \<Rightarrow> zh_weiyudi @ str_of_nat n @ zh_ye_stop
           | None \<Rightarrow> (case img_slide img of
                        Some n \<Rightarrow> zh_weiyudi @ str_of_nat n @ zh_zhanghuandengpian
                      | None \<Rightarrow> [])),
      qa_keywords = [doc_title, zh_tupian, zh_tuxiang],
      qa_source = base_context,
      qa_type = u ''image'',
      qa_image_data = Some (img_data img),
      qa_image_format = Some (img_format img)\<rparr>"

definition section_qa :: "set_order \<Rightarrow> ustr \<Rightarrow> sect \<Rightarrow> qa list" where
  "section_qa so base_context section =
     (if str_strip (sec_content section) \<noteq> []
      then [extract_qa_from_text so (sec_heading section) (sec_content section) base_context]
      else [])
     @ List.map_filter (\<lambda>table. extract_qa_from_table (sec_heading section) table base_context)
         (sec_tables section)"

definition convert_to_qa_format :: "set_order \<Rightarrow> document \<Rightarrow> qa list" where
  "convert_to_qa_format so content =
     (let base_context = zh_wendanglaiyuan @ dc_title content
      in concat (map (section_qa so base_context) (dc_sections content))
         @ map (\<lambda>(i, img). create_image_qa (dc_title content) img i base_context)
             (enumerate 0 (dc_images content)))"

section \<open>Input files\<close>

text \<open>
  What the document libraries read from a file. A paragraph has the name of its style
  and its text; a table of a text document is its rows of cell texts; a relationship
  has its target, its identifier and the bytes of the target part (\<open>None\<close> when
  reading them raises). A PDF image is a pixmap with its number of channels and its
  PNG encoding, or one that cannot be built. A worksheet cell is empty (\<open>None\<close>) or
  holds a value, here a string or an integer. A shape of a slide may have a text and
  may be a picture, the image of which may fail to load.
\<close>

type_synonym byte = nat \<comment> \<open>a natural number below 256\<close>

record para =
  style_name :: ustr
  para_text :: ustr

datatype element = CT_P para | CT_Tbl "ustr list list" | CT_Other

record relationship =
  target_ref :: ustr
  rId :: ustr
  target_blob :: "byte list option"

record word_doc =
  body :: "element list"
  rels :: "relationship list"

datatype pdf_image = Pixmap nat "byte list" | BadPixmap

record pdf_page =
  page_text :: ustr
  page_images :: "pdf_image list"

datatype cell_value = CStr ustr | CInt int

record sheet =
  sheet_name :: ustr
  sheet_rows :: "cell_value option list list"

datatype picture = NoPicture | Picture "byte list" ustr | BrokenPicture

record shape =
  shape_text :: "ustr option"
  shape_picture :: picture

datatype payload = Word word_doc | Pdf "pdf_page list" | Excel "sheet list"
  | Ppt "shape list list" | Corrupt

text \<open>
  A file: its path as a string, the stem and the suffix of its name, and what it
  holds. \<open>Corrupt\<close> is a file that no library can open; a library also fails on a
  file of another kind than its own.
\<close>

record input_file =
  file_path :: ustr
  stem :: ustr
  suffix :: ustr
  payload :: payload

section \<open>Logging\<close>

text \<open>One constructor for each logging call of the program, with the values it prints.\<close>

datatype log_entry =
    Info_start
  | Info_file ustr
  | Info_saved ustr
  | Info_done nat
  | Warn_unsupported ustr
  | Warn_no_qa ustr
  | Warn_word_image
  | Warn_pdf_image
  | Warn_ppt_image
  | Error_word ustr
  | Error_pdf ustr
  | Error_excel ustr
  | Error_ppt ustr
  | Error_file ustr

datatype level = INFO | WARNING | ERROR

fun level_of :: "log_entry \<Rightarrow> level" where
  "level_of Info_start = INFO"
| "level_of (Info_file f) = INFO"
| "level_of (Info_saved f) = INFO"
| "level_of (Info_done n) = INFO"
| "level_of (Warn_unsupported e) = WARNING"
| "level_of (Warn_no_qa f) = WARNING"
| "level_of Warn_word_image = WARNING"
| "level_of Warn_pdf_image = WARNING"
| "level_of Warn_ppt_image = WARNING"
| "level_of (Error_word f) = ERROR"
| "level_of (Error_pdf f) = ERROR"
| "level_of (Error_excel f) = ERROR"
| "level_of (Error_ppt f) = ERROR"
| "level_of (Error_file f) = ERROR"

section \<open>Base64\<close>

definition b64_char :: "nat \<Rightarrow> nat" where
  "b64_char n =
     (if n < 26 then 65 + n else if n < 52 then 97 + (n - 26)
      else if n < 62 then 48 + (n - 52) else if n = 62 then 43 else 47)"

fun b64encode :: "byte list \<Rightarrow> ustr" where
  "b64encode [] = []"
| "b64encode [a] = [b64_char (a div 4), b64_char ((a mod 4) * 16), 61, 61]"
| "b64encode [a, b] =
     [b64_char (a div 4), b64_char ((a mod 4) * 16 + b div 16), b64_char ((b mod 16) * 4), 61]"
| "b64encode (a # b # c # bs) =
     [b64_char (a div 4), b64_char ((a mod 4) * 16 + b div 16),
      b64_char ((b mod 16) * 4 + c div 64), b64_char (c mod 64)] @ b64encode bs"

section \<open>Format adapters\<close>

text \<open>
  Every adapter wraps its work in \<open>try ... except Exception\<close>, logs the error and
  returns \<open>None\<close>. An adapter returns what it logged together with its result.
\<close>

subsection \<open>Text documents\<close>

definition extract_table_data :: "ustr list list \<Rightarrow> table" where
  "extract_table_data rows =
     (case rows of
        [] \<Rightarrow> \<lparr>tbl_headers = Some [], tbl_rows = Some [], tbl_data = None\<rparr>
      | r # rs \<Rightarrow> \<lparr>tbl_headers = Some (map str_strip r),
                  tbl_rows = Some (map (map str_strip) rs), tbl_data = None\<rparr>)"

definition new_section :: "ustr \<Rightarrow> sect" where
  "new_section heading =
     \<lparr>sec_heading = heading, sec_content = [], sec_tables = [], sec_images = []\<rparr>"

definition flush :: "sect list \<Rightarrow> sect \<Rightarrow> sect list" where
  \<comment> \<open>append the section if it has content or tables\<close>
  "flush sections current_section =
     (if sec_content current_section \<noteq> [] \<or> sec_tables current_section \<noteq> []
      then sections @ [current_section] else sections)"

definition is_heading_paragraph :: "para \<Rightarrow> bool" where
  "is_heading_paragraph p =
     (str_startswith (style_name p) (u ''Heading'') \<or> is_heading (str_strip (para_text p)))"

text \<open>
  One round of the loop over the body; the state is the list of finished sections and
  the current section.
\<close>

fun word_step :: "sect list \<times> sect \<Rightarrow> element \<Rightarrow> sect list \<times> sect" where
  "word_step (sections, current_section) (CT_P p) =
     (let text = str_strip (para_text p)
      in if text \<noteq> [] then
           (if is_heading_paragraph p
            then (flush sections current_section, new_section text)
            else (sections,
                  current_section\<lparr>sec_content := sec_content current_section @ text @ [10]\<rparr>))
         else (sections, current_section))"
| "word_step (sections, current_section) (CT_Tbl t) =
     (sections,
      current_section\<lparr>sec_tables := sec_tables current_section @ [extract_table_data t]\<rparr>)"
| "word_step (sections, current_section) CT_Other = (sections, current_section)"

definition word_sections :: "element list \<Rightarrow> sect list" where
  "word_sections elements =
     (case foldl word_step ([], new_section []) elements of
        (sections, current_section) \<Rightarrow> flush sections current_section)"

definition after_last_dot :: "ustr \<Rightarrow> ustr" where \<comment> \<open>\<open>s.split('.')[-1]\<close>\<close>
  "after_last_dot s = rev (takeWhile (\<lambda>c. c \<noteq> 46) (rev s))"

fun extract_word_images :: "relationship list \<Rightarrow> log_entry list \<times> image list" where
  "extract_word_images [] = ([], [])"
| "extract_word_images (rel # rest) =
     (case extract_word_images rest of
        (lg, images) \<Rightarrow>
          if str_in (u ''image'') (target_ref rel) then
            (case target_blob rel of
               Some image_data \<Rightarrow>
                 (lg, \<lparr>img_page = None, img_index = None, img_slide = None,
                        img_data = b64encode image_data,
                        img_format = after_last_dot (target_ref rel),
                        img_relation_id = Some (rId rel)\<rparr> # images)
             | None \<Rightarrow> (Warn_word_image # lg, images))
          else (lg, images))"

definition process_word :: "input_file \<Rightarrow> log_entry list \<times> document option" where
  "process_word f =
     (case payload f of
        Word doc \<Rightarrow>
          (case extract_word_images (rels doc) of
             (lg, images) \<Rightarrow>
               (lg, Some \<lparr>dc_title = stem f, dc_source_file = file_path f, dc_type = u ''word'',
                          dc_sections = word_sections (body doc), dc_images = images\<rparr>))
      | _ \<Rightarrow> ([Error_word (file_path f)], None))"

subsection \<open>Paginated documents\<close>

fun pdf_page_images :: "nat \<Rightarrow> nat \<Rightarrow> pdf_image list \<Rightarrow> log_entry list \<times> image list" where
  "pdf_page_images page_num idx [] = ([], [])"
| "pdf_page_images page_num idx (img # imgs) =
     (case pdf_page_images page_num (Suc idx) imgs of
        (lg, images) \<Rightarrow>
          (case img of
             Pixmap n png \<Rightarrow>
               if n < 5 then
                 (lg, \<lparr>img_page = Some (page_num + 1), img_index = Some idx,
                        img_slide = None, img_data = b64encode png, img_format = u ''png'',
                        img_relation_id = None\<rparr> # images)
               else (lg, images)
           | BadPixmap \<Rightarrow> (Warn_pdf_image # lg, images)))"

fun pdf_pages :: "nat \<Rightarrow> pdf_page list \<Rightarrow> log_entry list \<times> sect list \<times> image list" where
  "pdf_pages page_num [] = ([], [], [])"
| "pdf_pages page_num (page # pages) =
     (case pdf_page_images page_num 0 (page_images page) of
        (lg, images) \<Rightarrow>
          (case pdf_pages (Suc page_num) pages of
             (lg', sections, images') \<Rightarrow>
               (lg @ lg',
                (if str_strip (page_text page) \<noteq> []
                 then [\<lparr>sec_heading = zh_di @ str_of_nat (page_num + 1) @ zh_ye,
                        sec_content = page_text page, sec_tables = [], sec_images = []\<rparr>]
                 else []) @ sections,
                images @ images')))"

definition process_pdf :: "input_file \<Rightarrow> log_entry list \<times> document option" where
  "process_pdf f =
     (case payload f of
        Pdf pages \<Rightarrow>
          (case pdf_pages 0 pages of
             (lg, sections, images) \<Rightarrow>
               (lg, Some \<lparr>dc_title = stem f, dc_source_file = file_path f, dc_type = u ''pdf'',
                          dc_sections = sections, dc_images = images\<rparr>))
      | _ \<Rightarrow> ([Error_pdf (file_path f)], None))"

subsection \<open>Workbooks\<close>

definition str_of_int :: "int \<Rightarrow> ustr" where
  "str_of_int i = (if i < 0 then 45 # str_of_nat (nat (- i)) else str_of_nat (nat i))"

fun str_of_cell :: "cell_value option \<Rightarrow> ustr" where
  \<comment> \<open>\<open>str(cell) if cell is not None else ''\<close>\<close>
  "str_of_cell None = []"
| "str_of_cell (Some (CStr s)) = s"
| "str_of_cell (Some (CInt i)) = str_of_int i"

definition sheet_data :: "sheet \<Rightarrow> ustr list list" where
  "sheet_data sh =
     map (map str_of_cell) (filter (\<lambda>row. list_ex (\<lambda>cell. cell \<noteq> None) row) (sheet_rows sh))"

definition excel_section :: "sheet \<Rightarrow> sect list" where
  "excel_section sh =
     (if sheet_data sh \<noteq> []
      then [\<lparr>sec_heading = zh_gongzuobiao @ u '': '' @ sheet_name sh, sec_content = [],
             sec_tables = [\<lparr>tbl_headers = None, tbl_rows = None, tbl_data = Some (sheet_data sh)\<rparr>],
             sec_images = []\<rparr>]
      else [])"

definition process_excel :: "input_file \<Rightarrow> log_entry list \<times> document option" where
  "process_excel f =
     (case payload f of
        Excel sheets \<Rightarrow>
          ([], Some \<lparr>dc_title = stem f, dc_source_file = file_path f, dc_type = u ''excel'',
                     dc_sections = concat (map excel_section sheets), dc_images = []\<rparr>)
      | _ \<Rightarrow> ([Error_excel (file_path f)], None))"

subsection \<open>Slide decks\<close>

text \<open>
  One round of the loop over the shapes of a slide: the state is the log, the text of
  the slide so far and the images of the document so far. A picture is appended to
  the images of the document (\<open>content['images']\<close>).
\<close>

definition shape_step ::
  "nat \<Rightarrow> log_entry list \<times> ustr \<times> image list \<Rightarrow> shape \<Rightarrow> log_entry list \<times> ustr \<times> image list"
where
  "shape_step slide_num st sh =
     (case st of
        (lg, text, images) \<Rightarrow>
          (let text = (case shape_text sh of Some t \<Rightarrow> text @ t @ [10] | None \<Rightarrow> text)
           in case shape_picture sh of
                NoPicture \<Rightarrow> (lg, text, images)
              | Picture blob ext \<Rightarrow>
                  (lg, text,
                   images @ [\<lparr>img_page = None, img_index = None, img_slide = Some (slide_num + 1),
                               img_data = b64encode blob, img_format = ext,
                               img_relation_id = None\<rparr>])
              | BrokenPicture \<Rightarrow> (lg @ [Warn_ppt_image], text, images)))"

fun ppt_slides ::
  "nat \<Rightarrow> shape list list \<Rightarrow> log_entry list \<times> sect list \<times> image list
     \<Rightarrow> log_entry list \<times> sect list \<times> image list"
where
  "ppt_slides slide_num [] acc = acc"
| "ppt_slides slide_num (slide # slides) (lg, sections, images) =
     (case foldl (shape_step slide_num) (lg, [], images) slide of
        (lg', text, images') \<Rightarrow>
          ppt_slides (Suc slide_num) slides
            (lg',
             (if str_strip text \<noteq> []
              then sections @ [\<lparr>sec_heading = zh_huandengpian @ u '' '' @ str_of_nat (slide_num + 1),
                                 sec_content = text, sec_tables = [], sec_images = []\<rparr>]
              else sections),
             images'))"

definition process_powerpoint :: "input_file \<Rightarrow> log_entry list \<times> document option" where
  "process_powerpoint f =
     (case payload f of
        Ppt slides \<Rightarrow>
          (case ppt_slides 0 slides ([], [], []) of
             (lg, sections, images) \<Rightarrow>
               (lg, Some \<lparr>dc_title = stem f, dc_source_file = file_path f,
                          dc_type = u ''powerpoint'', dc_sections = sections,
                          dc_images = images\<rparr>))
      | _ \<Rightarrow> ([Error_ppt (file_path f)], None))"

section \<open>Pipeline driver\<close>

text \<open>
  The renderers are outside the model: a written file is recorded with the values it
  was rendered from. Writing a file can fail; \<open>wr name\<close> says whether the file
  \<open>name\<close> of the output directory can be written, and a failed write raises
  \<open>OSError\<close>. The state of the driver is its counter, the files written so far and
  the log.
\<close>

datatype error = OSError ustr

datatype out_file =
    Docx ustr "qa list" ustr \<comment> \<open>name, pairs, title\<close>
  | Json ustr ustr "qa list" document \<comment> \<open>name, original file, pairs, raw content\<close>

record driver =
  processed_count :: nat
  written :: "out_file list"
  logged :: "log_entry list"

definition add_log :: "driver \<Rightarrow> log_entry list \<Rightarrow> driver" where
  "add_log st es = st\<lparr>logged := logged st @ es\<rparr>"

definition supported_formats ::
  "(ustr \<times> (input_file \<Rightarrow> log_entry list \<times> document option)) list"
where
  "supported_formats =
    [(u ''.docx'', process_word), (u ''.doc'', process_word), (u ''.pdf'', process_pdf),
     (u ''.xlsx'', process_excel), (u ''.xls'', process_excel),
     (u ''.pptx'', process_powerpoint), (u ''.ppt'', process_powerpoint)]"

text \<open>
  A function of the driver returns the new state and the exception it raised, if any.
\<close>

definition save_processed_content ::
  "set_order \<Rightarrow> (ustr \<Rightarrow> bool) \<Rightarrow> driver \<Rightarrow> input_file \<Rightarrow> document \<Rightarrow> driver \<times> error option"
where
  "save_processed_content so wr st original_file content =
     (let qa_pairs = convert_to_qa_format so content
      in if qa_pairs = [] then (add_log st [Warn_no_qa (file_path original_file)], None)
         else
           (let output_filename =
                  str_02d (processed_count st) @ u ''_'' @ stem original_file @ u ''_processed.docx'';
                json_path =
                  str_02d (processed_count st) @ u ''_'' @ stem original_file @ u ''_data.json''
            in if \<not> wr output_filename then (st, Some (OSError output_filename))
               else
                 (let st = st\<lparr>written := written st @ [Docx output_filename qa_pairs (dc_title content)]\<rparr>
                  in if \<not> wr json_path then (st, Some (OSError json_path))
                     else
                       (add_log
                          (st\<lparr>written := written st
                               @ [Json json_path (file_path original_file) qa_pairs content]\<rparr>)
                          [Info_saved output_filename],
                        None))))"

definition process_single_document ::
  "set_order \<Rightarrow> (ustr \<Rightarrow> bool) \<Rightarrow> driver \<Rightarrow> input_file \<Rightarrow> driver \<times> error option"
where
  "process_single_document so wr st f =
     (let file_ext = str_lower (suffix f)
      in case map_of supported_formats file_ext of
           Some processor \<Rightarrow>
             (case processor f of
                (lg, Some content) \<Rightarrow> save_processed_content so wr (add_log st lg) f content
              | (lg, None) \<Rightarrow> (add_log st lg, None))
         | None \<Rightarrow> (add_log st [Warn_unsupported file_ext], None))"

text \<open>
  The body of the loop over the files of the input directory, in the order of the
  traversal: the counter is incremented after \<open>process_single_document\<close> returns,
  inside the \<open>try\<close>, so an exception skips the increment.
\<close>

definition process_file ::
  "set_order \<Rightarrow> (ustr \<Rightarrow> bool) \<Rightarrow> driver \<Rightarrow> input_file \<Rightarrow> driver"
where
  "process_file so wr st f =
     (if map_of supported_formats (str_lower (suffix f)) \<noteq> None then
        (case process_single_document so wr (add_log st [Info_file (file_path f)]) f of
           (st', None) \<Rightarrow> st'\<lparr>processed_count := processed_count st' + 1\<rparr>
         | (st', Some e) \<Rightarrow> add_log st' [Error_file (file_path f)])
      else st)"

definition initial_driver :: driver where
  "initial_driver = \<lparr>processed_count = 0, written = [], logged = []\<rparr>"

definition process_all_documents ::
  "set_order \<Rightarrow> (ustr \<Rightarrow> bool) \<Rightarrow> input_file list \<Rightarrow> driver"
where
  "process_all_documents so wr files =
     (let st = foldl (process_file so wr) (add_log initial_driver [Info_start]) files
      in add_log st [Info_done (processed_count st)])"

section \<open>Descriptions used in the statements\<close>

text \<open>
  Collapsing every run of consecutive newlines to a single newline, written directly;
  the program does it with \<open>re.sub\<close> and \<open>newlines_pattern\<close>.
\<close>

function collapse_newlines :: "ustr \<Rightarrow> ustr" where
  "collapse_newlines [] = []"
| "collapse_newlines (c # t) =
     (if c = 10 then 10 # collapse_newlines (dropWhile (\<lambda>x. x = 10) t)
      else c # collapse_newlines t)"
  by pat_completeness auto
termination
  by (relation "measure length") (auto simp: less_Suc_eq_le length_dropWhile_le)

text \<open>The image records of the pictures of one slide, and the text of a slide.\<close>

definition slide_pictures :: "nat \<Rightarrow> shape list \<Rightarrow> image list" where
  "slide_pictures slide_number slide =
     concat (map (\<lambda>sh. case shape_picture sh of
                          Picture blob ext \<Rightarrow>
                            [\<lparr>img_page = None, img_index = None, img_slide = Some slide_number,
                              img_data = b64encode blob, img_format = ext,
                              img_relation_id = None\<rparr>]
                        | _ \<Rightarrow> []) slide)"

definition slide_text :: "shape list \<Rightarrow> ustr" where
  "slide_text slide =
     concat (map (\<lambda>sh. case shape_text sh of Some t \<Rightarrow> t @ [10] | None \<Rightarrow> []) slide)"

text \<open>Two set orders: the elements by their last occurrence, and the reverse of that.\<close>

definition so_forward :: set_order where
  "so_forward xs = remdups xs"

definition so_backward :: set_order where
  "so_backward xs = rev (remdups xs)"

text \<open>The name of a written file.\<close>

fun out_name :: "out_file \<Rightarrow> ustr" where
  "out_name (Docx name pairs title) = name"
| "out_name (Json name original pairs content) = name"

section \<open>Example inputs\<close>

text \<open>
  A workbook with the single sheet \<open>Sheet1\<close> and the rows \<open>Name, Age\<close> and
  \<open>Bob, 30\<close>.
\<close>

definition sheet1 :: sheet where
  "sheet1 =
     \<lparr>sheet_name = u ''Sheet1'',
      sheet_rows = [[Some (CStr (u ''Name'')), Some (CStr (u ''Age''))],
                    [Some (CStr (u ''Bob'')), Some (CStr (u ''30''))]]\<rparr>"

definition sheet1_file :: input_file where
  "sheet1_file =
     \<lparr>file_path = u ''in/book.xlsx'', stem = u ''book'', suffix = u ''.xlsx'',
      payload = Excel [sheet1]\<rparr>"

text \<open>
  A text document with one plain paragraph, and a file of the same kind that cannot
  be opened.
\<close>

definition good_docx :: "ustr \<Rightarrow> input_file" where
  "good_docx name =
     \<lparr>file_path = u ''in/'' @ name @ u ''.docx'', stem = name, suffix = u ''.docx'',
      payload = Word \<lparr>body = [CT_P \<lparr>style_name = u ''Normal'', para_text = u ''ok''\<rparr>],
                      rels = []\<rparr>\<rparr>"

definition corrupt_docx :: "ustr \<Rightarrow> input_file" where
  "corrupt_docx name =
     \<lparr>file_path = u ''in/'' @ name @ u ''.docx'', stem = name, suffix = u ''.docx'',
      payload = Corrupt\<rparr>"

text \<open>A deck of one slide that has a picture and no text.\<close>

definition picture_deck :: input_file where
  "picture_deck =
     \<lparr>file_path = u ''in/deck.pptx'', stem = u ''deck'', suffix = u ''.pptx'',
      payload = Ppt [[\<lparr>shape_text = None,
                       shape_picture = Picture [0x89, 0x50, 0x4E] (u ''png'')\<rparr>]]\<rparr>"

text \<open>
  Eleven different runs of two CJK code points, separated by spaces, and the first two
  of them.
\<close>

definition cjk_run :: "nat \<Rightarrow> ustr" where
  "cjk_run k = [0x5000 + k, 0x5000 + k]"

definition eleven_runs :: ustr where
  "eleven_runs = str_join (u '' '') (map cjk_run [0, 1, 2, 3, 4, 5, 6, 7, 8, 9, 10])"

definition two_runs :: ustr where
  "two_runs = str_join (u '' '') (map cjk_run [0, 1])"

text \<open>Two heading paragraphs, the second found by the heuristic, and a body paragraph.\<close>

definition para_intro :: para where
  "para_intro = \<lparr>style_name = u ''Heading 1'', para_text = u ''Intro''\<rparr>"

definition para_setup :: para where
  "para_setup = \<lparr>style_name = u ''Normal'', para_text = u ''1. Setup''\<rparr>"

definition para_body :: para where
  "para_body = \<lparr>style_name = u ''Normal'', para_text = u ''body''\<rparr>"

text \<open>The question of the generalisation example: a date, an estate number, an error.\<close>

abbreviation zh_chuxian :: ustr where \<comment> \<open>chu xian, appears\<close>
  "zh_chuxian \<equiv> [0x51FA, 0x73B0]"

definition example_question :: ustr where
  "example_question = u ''2023-05-01 '' @ zh_xiaoqu @ u ''102 '' @ zh_chuxian @ zh_cuowu"

text \<open>
  A section text with a leading space, a run of three newlines, and a space and a
  newline at the end.
\<close>

definition example_content :: ustr where
  "example_content = u '' a'' @ [10, 10, 10] @ u ''b '' @ [10]"

text \<open>The image record of the picture of that slide.\<close>

definition deck_image :: image where
  "deck_image =
     \<lparr>img_page = None, img_index = None, img_slide = Some 1, img_data = u ''iVBO'',
      img_format = u ''png'', img_relation_id = None\<rparr>"

text \<open>
  An element of the body that the loop of the text-document adapter passes over: a
  paragraph whose stripped text is empty, or an element that is neither a paragraph
  nor a table.
\<close>

fun inert :: "element \<Rightarrow> bool" where
  "inert (CT_P p) = (str_strip (para_text p) = [])"
| "inert (CT_Tbl t) = False"
| "inert CT_Other = True"

text \<open>The section of a slide, kept when the stripped text of the slide is not empty.\<close>

definition slide_section :: "nat \<Rightarrow> shape list \<Rightarrow> sect list" where
  "slide_section slide_number slide =
     (if str_strip (slide_text slide) \<noteq> []
      then [\<lparr>sec_heading = zh_huandengpian @ u '' '' @ str_of_nat slide_number,
             sec_content = slide_text slide, sec_tables = [], sec_images = []\<rparr>]
      else [])"

section \<open>Evaluating the character classes\<close>

text \<open>
  The tables are long; these facts read them once for the code points that the
  examples use (Basic Latin and the CJK block), so that an evaluation does not go
  through a table for every code point.
\<close>

lemma is_space_ascii:
  "c < 0x80 \<Longrightarrow> is_space c = (9 \<le> c \<and> c \<le> 13 \<or> 28 \<le> c \<and> c \<le> 32)"
  by (auto simp: is_space_def space_ranges_def)

lemma is_space_high: "0x3000 < c \<Longrightarrow> is_space c = False"
  by (simp add: is_space_def space_ranges_def)

lemma is_digit_ascii: "c < 0x80 \<Longrightarrow> is_digit c = (48 \<le> c \<and> c \<le> 57)"
  by (auto simp: is_digit_def digit_ranges_def)

lemma is_digit_cjk: "0x1C59 < c \<Longrightarrow> c < 0xA620 \<Longrightarrow> is_digit c = False"
  by (simp add: is_digit_def digit_ranges_def)

lemma tolower_ascii:
  "c < 0x80 \<Longrightarrow> tolower c = (if 65 \<le> c \<and> c \<le> 90 then c + 32 else c)"
  by (auto simp: tolower_def lower_table_def)

lemma tolower_cjk: "0x2CF2 < c \<Longrightarrow> c < 0xA640 \<Longrightarrow> tolower c = c"
  by (simp add: tolower_def lower_table_def)

lemmas char_class_simps =
  is_space_ascii is_space_high is_digit_ascii is_digit_cjk tolower_ascii tolower_cjk

lemmas pattern_simps =
  re_match_def re_search_def re_findall_def re_sub_def cats_def alts_def lit_def lit_i_def
  ci_match_def casefix_def

section \<open>Answer enhancement keeps only the SQL keyword (C1)\<close>

text \<open>
  C1. The claim is that each SQL statement matched by the pattern is appended as a
  fenced block, so that an answer containing \<open>SELECT * FROM users;\<close> gets a block
  with that full statement. The pattern has a capturing group around the keyword, and
  \<open>re.findall\<close> returns the group, not the match: for this answer the only block
  appended holds the keyword \<open>SELECT\<close> alone. The theorem evaluates the program on
  the answer of the claim.
\<close>

theorem enhance_answer_sql_keyword_only:
  "re_findall sql_pattern (u ''SELECT * FROM users;'') = [u ''SELECT'']
   \<and> enhance_answer (u ''SELECT * FROM users;'') base_context =
       base_context @ [10, 10] @ u ''SELECT * FROM users;'' @ [10, 10] @ zh_sql_heading @ [10]
       @ [96, 96, 96] @ u ''sql'' @ [10] @ u ''SELECT'' @ [10] @ [96, 96, 96] @ [10]"
  by (simp add: enhance_answer_def sql_appendix_def steps_appendix_def sql_fence_def
      sql_pattern_def pattern_simps char_class_simps)

section \<open>The answer of a table (C7)\<close>

text \<open>
  C7. For a table with headers \<open>A\<close>, \<open>B\<close> and the single row \<open>1\<close>, \<open>2\<close>
  under the heading \<open>X\<close>, the table path gives the question "about X, detailed
  information" and the answer made of the two caption lines, the header row
  \<open>A | B\<close>, the separator \<open>---|---\<close> and the row \<open>1 | 2\<close>, each line ended by
  a newline.
\<close>

theorem table_answer_example:
  "extract_qa_from_table (u ''X'')
     \<lparr>tbl_headers = Some [u ''A'', u ''B''], tbl_rows = Some [[u ''1'', u ''2'']], tbl_data = d\<rparr>
     base_context =
   Some \<lparr>qa_question = zh_guanyu @ u ''X'' @ zh_dexiangxixinxi,
         qa_answer = zh_biaogebiaoti @ u ''X'' @ [10] @ zh_biaogeneirong @ [10]
           @ u ''A | B'' @ [10] @ u ''---|---'' @ [10] @ u ''1 | 2'' @ [10],
         qa_keywords = [u ''A'', u ''B'', u ''X''],
         qa_source = base_context,
         qa_type = u ''table'',
         qa_image_data = None,
         qa_image_format = None\<rparr>"
  by (simp add: extract_qa_from_table_def get_or_def)

section \<open>Generalising the example question (C8)\<close>

text \<open>
  C8. For the question \<open>2023-05-01 xiaoqu102 chuxian cuowu\<close> the date is replaced
  first, then the remaining run of digits; the estate rule finds nothing to replace,
  because the digits after the estate word are gone. When the section text contains
  the word for error and neither word for configuring, the prefix "how to solve" is
  put in front.
\<close>

theorem generalize_example_question:
  assumes "str_in zh_cuowu content"
    and "\<not> str_in zh_shezhi content"
    and "\<not> str_in zh_peizhi content"
  shows "re_sub date_pattern tok_riqi example_question =
           tok_riqi @ u '' '' @ zh_xiaoqu @ u ''102 '' @ zh_chuxian @ zh_cuowu
       \<and> re_sub digits_pattern tok_shuzi (re_sub date_pattern tok_riqi example_question) =
           tok_riqi @ u '' '' @ zh_xiaoqu @ tok_shuzi @ u '' '' @ zh_chuxian @ zh_cuowu
       \<and> re_sub estate_pattern tok_xiaoqumingcheng
           (tok_riqi @ u '' '' @ zh_xiaoqu @ tok_shuzi @ u '' '' @ zh_chuxian @ zh_cuowu) =
           tok_riqi @ u '' '' @ zh_xiaoqu @ tok_shuzi @ u '' '' @ zh_chuxian @ zh_cuowu
       \<and> generalize_question example_question content =
           zh_ruhejiejue @ tok_riqi @ u '' '' @ zh_xiaoqu @ tok_shuzi @ u '' '' @ zh_chuxian
           @ zh_cuowu"
proof -
  have d: "re_sub date_pattern tok_riqi example_question =
           tok_riqi @ u '' '' @ zh_xiaoqu @ u ''102 '' @ zh_chuxian @ zh_cuowu"
    by (simp add: example_question_def date_pattern_def pattern_simps char_class_simps)
  have n: "re_sub digits_pattern tok_shuzi (re_sub date_pattern tok_riqi example_question) =
           tok_riqi @ u '' '' @ zh_xiaoqu @ tok_shuzi @ u '' '' @ zh_chuxian @ zh_cuowu"
    unfolding d by (simp add: digits_pattern_def pattern_simps char_class_simps)
  have e: "re_sub estate_pattern tok_xiaoqumingcheng
           (tok_riqi @ u '' '' @ zh_xiaoqu @ tok_shuzi @ u '' '' @ zh_chuxian @ zh_cuowu) =
           tok_riqi @ u '' '' @ zh_xiaoqu @ tok_shuzi @ u '' '' @ zh_chuxian @ zh_cuowu"
    by (simp add: estate_pattern_def pattern_simps char_class_simps)
  have us: "re_sub user_pattern tok_yonghuming
           (tok_riqi @ u '' '' @ zh_xiaoqu @ tok_shuzi @ u '' '' @ zh_chuxian @ zh_cuowu) =
           tok_riqi @ u '' '' @ zh_xiaoqu @ tok_shuzi @ u '' '' @ zh_chuxian @ zh_cuowu"
    by (simp add: user_pattern_def pattern_simps char_class_simps)
  have np: "\<not> list_ex (\<lambda>prefix. str_in prefix
           (tok_riqi @ u '' '' @ zh_xiaoqu @ tok_shuzi @ u '' '' @ zh_chuxian @ zh_cuowu))
           question_prefixes"
    by (simp add: question_prefixes_def)
  have g: "generalize_question example_question content =
           zh_ruhejiejue @ tok_riqi @ u '' '' @ zh_xiaoqu @ tok_shuzi @ u '' '' @ zh_chuxian
           @ zh_cuowu"
    unfolding generalize_question_def Let_def n e us using np assms by simp
  from d n e g show ?thesis by (intro conjI)
qed

theorem generalize_example_question_witness:
  "str_in zh_cuowu example_question \<and> \<not> str_in zh_shezhi example_question
   \<and> \<not> str_in zh_peizhi example_question
   \<and> generalize_question example_question example_question =
       zh_ruhejiejue @ tok_riqi @ u '' '' @ zh_xiaoqu @ tok_shuzi @ u '' '' @ zh_chuxian
       @ zh_cuowu"
proof -
  have a: "str_in zh_cuowu example_question" by (simp add: example_question_def)
  have b: "\<not> str_in zh_shezhi example_question" by (simp add: example_question_def)
  have c: "\<not> str_in zh_peizhi example_question" by (simp add: example_question_def)
  from a b c generalize_example_question [OF a b c] show ?thesis by simp
qed

section \<open>The text path works on the cleaned text (C9)\<close>

text \<open>
  The substitution of \<open>newlines_pattern\<close> by a single newline is
  \<open>collapse_newlines\<close>: the greedy repetition takes the whole run of newlines.
\<close>

lemma rm_rep_nl:
  "rm (Rep True m (One [Ch 10])) (i, t, g) =
     (case t of
        [] \<Rightarrow> []
      | c # t' \<Rightarrow> if c = 10 then rm (Rep True (m - 1) (One [Ch 10])) (Suc i, t', g) else [])
     @ (if m = 0 then [(i, t, g)] else [])"
  by (subst rm.simps(9)) (simp del: rm.simps(9) split: list.split)

lemma rm_newlines0:
  "\<exists>rest. rm (Rep True 0 (One [Ch 10])) (i, t, g) =
     (i + length (takeWhile (\<lambda>x. x = 10) t), dropWhile (\<lambda>x. x = 10) t, g) # rest"
proof (induction t arbitrary: i)
  case Nil
  show ?case by (subst rm_rep_nl) simp
next
  case (Cons c t)
  show ?case
  proof (cases "c = 10")
    case True
    from Cons [of "Suc i"] obtain rest where
      "rm (Rep True 0 (One [Ch 10])) (Suc i, t, g) =
         (Suc i + length (takeWhile (\<lambda>x. x = 10) t), dropWhile (\<lambda>x. x = 10) t, g) # rest"
      by blast
    with True show ?thesis
      by (subst rm_rep_nl) (simp del: rm.simps(9))
  next
    case False
    then show ?thesis by (subst rm_rep_nl) (simp del: rm.simps(9))
  qed
qed

lemma rm_newlines1_nl:
  "\<exists>rest. rm newlines_pattern (i, 10 # t, g) =
     (Suc i + length (takeWhile (\<lambda>x. x = 10) t), dropWhile (\<lambda>x. x = 10) t, g) # rest"
proof -
  from rm_newlines0 [of "Suc i" t g] obtain rest where
    "rm (Rep True 0 (One [Ch 10])) (Suc i, t, g) =
       (Suc i + length (takeWhile (\<lambda>x. x = 10) t), dropWhile (\<lambda>x. x = 10) t, g) # rest"
    by blast
  then show ?thesis
    unfolding newlines_pattern_def by (subst rm_rep_nl) (simp del: rm.simps(9))
qed

lemma rm_newlines1_other:
  "t = [] \<or> hd t \<noteq> 10 \<Longrightarrow> rm newlines_pattern (i, t, g) = []"
  unfolding newlines_pattern_def by (subst rm_rep_nl) (auto simp del: rm.simps(9) split: list.split)


lemma subiter_newlines: "subiter newlines_pattern [10] i t = collapse_newlines t"
proof (induction t arbitrary: i rule: collapse_newlines.induct)
  case 1
  have "rm newlines_pattern (i, [], None) = []"
    by (rule rm_newlines1_other) simp
  then show ?case by (subst subiter.simps) (simp del: subiter.simps rm.simps(9))
next
  case (2 c t)
  show ?case
  proof (cases "c = 10")
    case True
    from rm_newlines1_nl [of i t None] obtain rest where
      r: "rm newlines_pattern (i, 10 # t, None) =
        (Suc i + length (takeWhile (\<lambda>x. x = 10) t), dropWhile (\<lambda>x. x = 10) t, None) # rest"
      by blast
    have l: "length (dropWhile (\<lambda>x. x = 10) t) < length (10 # t)"
      by (simp add: less_Suc_eq_le length_dropWhile_le)
    show ?thesis
      using True 2(1) [OF True] l
      by (subst subiter.simps) (simp add: r del: subiter.simps rm.simps(9))
  next
    case False
    have "rm newlines_pattern (i, c # t, None) = []"
      by (rule rm_newlines1_other) (simp add: False)
    then show ?thesis
      using False 2(2) [OF False]
      by (subst subiter.simps) (simp del: subiter.simps rm.simps(9))
  qed
qed

lemma re_sub_newlines: "re_sub newlines_pattern [10] s = collapse_newlines s"
  unfolding re_sub_def by (rule subiter_newlines)

lemma collapse_head: "collapse_newlines s = c # r \<Longrightarrow> \<exists>r'. s = c # r'"
  by (cases s) (auto split: if_splits)

lemma collapse_after_newline:
  "collapse_newlines (dropWhile (\<lambda>x. x = 10) t) = c # r \<Longrightarrow> c \<noteq> 10"
proof
  assume a: "collapse_newlines (dropWhile (\<lambda>x. x = 10) t) = c # r" and c: "c = 10"
  from collapse_head [OF a] obtain r' where "dropWhile (\<lambda>x. x = 10) t = c # r'" by blast
  then have "\<not> (\<lambda>x. x = 10) c" by (rule dropWhile_eq_Cons_conv [THEN iffD1, THEN conjunct2])
  with c show False by simp
qed

lemma collapse_no_double: "\<not> str_in [10, 10] (collapse_newlines s)"
proof (induction s rule: collapse_newlines.induct)
  case 1
  show ?case by simp
next
  case (2 c t)
  show ?case
  proof (cases "c = 10")
    case True
    show ?thesis
    proof (cases "collapse_newlines (dropWhile (\<lambda>x. x = 10) t)")
      case Nil
      with True show ?thesis by simp
    next
      case (Cons d r)
      from collapse_after_newline [OF Cons] have "d \<noteq> 10" .
      with True Cons 2(1) [OF True] show ?thesis by simp
    qed
  next
    case False
    with 2(2) [OF False] show ?thesis by simp
  qed
qed

lemma collapse_keeps_text:
  "filter (\<lambda>x. x \<noteq> 10) (collapse_newlines s) = filter (\<lambda>x. x \<noteq> 10) s"
proof (induction s rule: collapse_newlines.induct)
  case 1
  show ?case by simp
next
  case (2 c t)
  have "filter (\<lambda>x. x \<noteq> 10) (dropWhile (\<lambda>x. x = 10) t) = filter (\<lambda>x. x \<noteq> (10::nat)) t"
    by (induction t) auto
  with 2 show ?case by auto
qed


text \<open>
  \<open>str_strip\<close> removes the whitespace at both ends and nothing else: the text is
  the stripped text between two runs of whitespace, and a stripped text that is not
  empty neither begins nor ends with whitespace.
\<close>

lemma rev_dropWhile_split: "rev (dropWhile P (rev xs)) @ rev (takeWhile P (rev xs)) = xs"
proof -
  have "rev (takeWhile P (rev xs) @ dropWhile P (rev xs)) = rev (rev xs)"
    by (simp only: takeWhile_dropWhile_id)
  then show ?thesis by (simp only: rev_append rev_rev_ident)
qed

lemma dropWhile_str_strip:
  "dropWhile is_space content =
     str_strip content @ rev (takeWhile is_space (rev (dropWhile is_space content)))"
  by (simp only: str_strip_def rev_dropWhile_split)

lemma str_strip_decomposition:
  "content = takeWhile is_space content @ str_strip content
     @ rev (takeWhile is_space (rev (dropWhile is_space content)))"
proof -
  have "content = takeWhile is_space content @ dropWhile is_space content"
    by (simp only: takeWhile_dropWhile_id)
  also have "dropWhile is_space content =
     str_strip content @ rev (takeWhile is_space (rev (dropWhile is_space content)))"
    by (rule dropWhile_str_strip)
  finally show ?thesis .
qed

lemma str_strip_surroundings:
  "list_all is_space (takeWhile is_space content)
   \<and> list_all is_space (rev (takeWhile is_space (rev (dropWhile is_space content))))"
  by (auto simp: list_all_iff dest: set_takeWhileD)

lemma str_strip_last:
  assumes "str_strip content \<noteq> []"
  shows "\<not> is_space (last (str_strip content))"
proof -
  from assms have n: "dropWhile is_space (rev (dropWhile is_space content)) \<noteq> []"
    by (simp only: str_strip_def rev_is_Nil_conv not_False_eq_True)
  have "last (str_strip content) = hd (dropWhile is_space (rev (dropWhile is_space content)))"
    by (simp only: str_strip_def last_rev)
  with hd_dropWhile [OF n] show ?thesis by simp
qed

lemma str_strip_hd:
  assumes "str_strip content \<noteq> []"
  shows "\<not> is_space (hd (str_strip content))"
proof -
  have n: "dropWhile is_space content \<noteq> []"
  proof
    assume "dropWhile is_space content = []"
    with dropWhile_str_strip [of content]
    have "str_strip content @ rev (takeWhile is_space (rev (dropWhile is_space content))) = []"
      by (simp only:)
    then have "str_strip content = []" by (simp only: append_is_Nil_conv)
    with assms show False by simp
  qed
  have "hd (dropWhile is_space content) =
      hd (str_strip content @ rev (takeWhile is_space (rev (dropWhile is_space content))))"
    using dropWhile_str_strip [of content] by (rule arg_cong)
  also have "\<dots> = hd (str_strip content)" using assms by (rule hd_append2)
  finally have "hd (dropWhile is_space content) = hd (str_strip content)" .
  with hd_dropWhile [OF n] show ?thesis by simp
qed

text \<open>
  C9. In the text path the section text is stripped of the whitespace at its two ends
  and every run of consecutive newlines is collapsed to one newline. This cleaned
  text, not the text of the section as it stands, is what the question patterns are
  matched against, what the generaliser and the keyword extraction receive, and the
  body of the enhanced answer (after the source line and an empty line, before the SQL
  and step appendices, which are computed from it too). The cleaned text has no two
  newlines in a row and keeps every other code point of the stripped text; the
  stripped text is the section text without a run of whitespace at each end, and,
  when it is not empty, it neither begins nor ends with whitespace.
\<close>

theorem text_path_uses_cleaned_text:
  "extract_qa_from_text so heading content base_context =
     (let cleaned = collapse_newlines (str_strip content) in
      \<lparr>qa_question =
         generalize_question
           (case first_question question_patterns cleaned of
              Some q \<Rightarrow> q
            | None \<Rightarrow> if heading \<noteq> [] then heading else zh_xiangguanwenti) cleaned,
       qa_answer = base_context @ [10, 10] @ cleaned @ sql_appendix cleaned @ steps_appendix cleaned,
       qa_keywords = extract_keywords so cleaned,
       qa_source = base_context,
       qa_type = u ''text'',
       qa_image_data = None,
       qa_image_format = None\<rparr>)
   \<and> \<not> str_in [10, 10] (collapse_newlines (str_strip content))
   \<and> filter (\<lambda>x. x \<noteq> 10) (collapse_newlines (str_strip content)) =
       filter (\<lambda>x. x \<noteq> 10) (str_strip content)
   \<and> (\<exists>pre post. content = pre @ str_strip content @ post
         \<and> list_all is_space pre \<and> list_all is_space post)
   \<and> (str_strip content \<noteq> [] \<longrightarrow>
         \<not> is_space (hd (str_strip content)) \<and> \<not> is_space (last (str_strip content)))"
proof -
  have a: "extract_qa_from_text so heading content base_context =
     (let cleaned = collapse_newlines (str_strip content) in
      \<lparr>qa_question =
         generalize_question
           (case first_question question_patterns cleaned of
              Some q \<Rightarrow> q
            | None \<Rightarrow> if heading \<noteq> [] then heading else zh_xiangguanwenti) cleaned,
       qa_answer = base_context @ [10, 10] @ cleaned @ sql_appendix cleaned @ steps_appendix cleaned,
       qa_keywords = extract_keywords so cleaned,
       qa_source = base_context,
       qa_type = u ''text'',
       qa_image_data = None,
       qa_image_format = None\<rparr>)"
    unfolding extract_qa_from_text_def re_sub_newlines enhance_answer_def Let_def by (rule refl)
  have d: "\<exists>pre post. content = pre @ str_strip content @ post
         \<and> list_all is_space pre \<and> list_all is_space post"
    using str_strip_decomposition [of content] str_strip_surroundings [of content] by blast
  have e: "str_strip content \<noteq> [] \<longrightarrow>
         \<not> is_space (hd (str_strip content)) \<and> \<not> is_space (last (str_strip content))"
    using str_strip_hd [of content] str_strip_last [of content] by blast
  from a collapse_no_double [of "str_strip content"] collapse_keeps_text [of "str_strip content"]
    d e
  show ?thesis by (intro conjI)
qed

text \<open>
  The witness: the example text is cleaned to \<open>a\<close>, a newline, \<open>b\<close>, and that
  is the body of the answer.
\<close>

theorem text_path_uses_cleaned_text_witness:
  "str_strip example_content = u ''a'' @ [10, 10, 10] @ u ''b''
   \<and> str_strip example_content \<noteq> []
   \<and> qa_answer (extract_qa_from_text so_forward (u ''H'') example_content (u ''ctx'')) =
       u ''ctx'' @ [10, 10] @ u ''a'' @ [10] @ u ''b''
   \<and> \<not> is_space (hd (str_strip example_content))
   \<and> \<not> is_space (last (str_strip example_content))"
proof -
  have s: "str_strip example_content = u ''a'' @ [10, 10, 10] @ u ''b''"
    by (simp add: example_content_def str_strip_def char_class_simps)
  have n: "str_strip example_content \<noteq> []"
    unfolding s by simp
  have c: "collapse_newlines (u ''a'' @ [10, 10, 10] @ u ''b'') = u ''a'' @ [10] @ u ''b''"
    by simp
  have q: "sql_appendix (u ''a'' @ [10] @ u ''b'') = []"
    by (simp add: sql_appendix_def sql_pattern_def pattern_simps char_class_simps)
  have t: "steps_appendix (u ''a'' @ [10] @ u ''b'') = []"
    by (simp add: steps_appendix_def)
  from text_path_uses_cleaned_text [of so_forward "u ''H''" example_content "u ''ctx''"]
  have "qa_answer (extract_qa_from_text so_forward (u ''H'') example_content (u ''ctx'')) =
          u ''ctx'' @ [10, 10] @ collapse_newlines (str_strip example_content)
          @ sql_appendix (collapse_newlines (str_strip example_content))
          @ steps_appendix (collapse_newlines (str_strip example_content))"
    and "\<not> is_space (hd (str_strip example_content))
          \<and> \<not> is_space (last (str_strip example_content))"
    using n by (simp_all add: Let_def)
  then show ?thesis
    using s n by (simp add: c [simplified] q [simplified] t [simplified])
qed


section \<open>A heading followed by a heading is lost (C10)\<close>

lemma word_step_inert: "inert e \<Longrightarrow> word_step st e = st"
  by (cases st; cases e) simp_all

lemma foldl_word_step_inert: "list_all inert es \<Longrightarrow> foldl word_step st es = st"
  by (induction es arbitrary: st) (simp_all add: word_step_inert)

lemma word_step_heading:
  "is_heading_paragraph p \<Longrightarrow> str_strip (para_text p) \<noteq> [] \<Longrightarrow>
   word_step (sections, cur) (CT_P p) = (flush sections cur, new_section (str_strip (para_text p)))"
  by simp

lemma flush_new_section: "flush sections (new_section h) = sections"
  by (simp add: flush_def new_section_def)

text \<open>
  C10. Let a heading paragraph \<open>p1\<close> be followed by a heading paragraph \<open>p2\<close>,
  with nothing between them but elements the loop passes over. After \<open>p1\<close> the
  current section is the new section of \<open>p1\<close>, with empty content and no tables;
  \<open>p2\<close> adds nothing to the finished sections, so that section is discarded; and
  the sections of the whole document are those of the document without \<open>p1\<close> and
  the elements up to \<open>p2\<close>: the first heading leaves no trace.
\<close>

theorem heading_without_body_is_lost:
  assumes "is_heading_paragraph p1" and "str_strip (para_text p1) \<noteq> []"
    and "is_heading_paragraph p2" and "str_strip (para_text p2) \<noteq> []"
    and "list_all inert mid"
  shows "snd (foldl word_step ([], new_section []) (pre @ [CT_P p1] @ mid)) =
           new_section (str_strip (para_text p1))
       \<and> fst (foldl word_step ([], new_section []) (pre @ [CT_P p1] @ mid @ [CT_P p2])) =
           fst (foldl word_step ([], new_section []) (pre @ [CT_P p1] @ mid))
       \<and> word_sections (pre @ [CT_P p1] @ mid @ [CT_P p2] @ post) =
           word_sections (pre @ [CT_P p2] @ post)"
proof -
  obtain sections cur where st: "foldl word_step ([], new_section []) pre = (sections, cur)"
    by (cases "foldl word_step ([], new_section []) pre")
  have a: "foldl word_step ([], new_section []) (pre @ [CT_P p1] @ mid) =
             (flush sections cur, new_section (str_strip (para_text p1)))"
    using assms(1,2,5) by (simp add: st foldl_word_step_inert del: word_step.simps add: word_step_heading)
  have b: "foldl word_step ([], new_section []) (pre @ [CT_P p1] @ mid @ [CT_P p2]) =
             (flush sections cur, new_section (str_strip (para_text p2)))"
    using assms by (simp add: st foldl_word_step_inert flush_new_section del: word_step.simps add: word_step_heading)
  have c: "foldl word_step ([], new_section []) (pre @ [CT_P p2]) =
             (flush sections cur, new_section (str_strip (para_text p2)))"
    using assms(3,4) by (simp add: st del: word_step.simps add: word_step_heading)
  have d: "foldl word_step ([], new_section []) (pre @ [CT_P p1] @ mid @ [CT_P p2] @ post) =
           foldl word_step ([], new_section []) (pre @ [CT_P p2] @ post)"
  proof -
    have "foldl word_step ([], new_section []) (pre @ [CT_P p1] @ mid @ [CT_P p2] @ post) =
          foldl word_step (foldl word_step ([], new_section []) (pre @ [CT_P p1] @ mid @ [CT_P p2])) post"
      by (simp del: word_step.simps)
    also have "\<dots> = foldl word_step (foldl word_step ([], new_section []) (pre @ [CT_P p2])) post"
      unfolding b c ..
    also have "\<dots> = foldl word_step ([], new_section []) (pre @ [CT_P p2] @ post)"
      by (simp del: word_step.simps)
    finally show ?thesis .
  qed
  show ?thesis
    unfolding word_sections_def d a b by simp
qed



text \<open>
  The witness: a heading by style, an element that is passed over, a heading by the
  numbered-list pattern, a body paragraph. The only section has the second heading.
\<close>

theorem heading_without_body_is_lost_witness:
  "is_heading_paragraph para_intro \<and> str_strip (para_text para_intro) \<noteq> []
   \<and> is_heading_paragraph para_setup \<and> str_strip (para_text para_setup) \<noteq> []
   \<and> list_all inert [CT_Other]
   \<and> word_sections ([] @ [CT_P para_intro] @ [CT_Other] @ [CT_P para_setup] @ [CT_P para_body]) =
       word_sections ([] @ [CT_P para_setup] @ [CT_P para_body])
   \<and> word_sections ([] @ [CT_P para_setup] @ [CT_P para_body]) =
       [\<lparr>sec_heading = u ''1. Setup'', sec_content = u ''body'' @ [10], sec_tables = [],
         sec_images = []\<rparr>]"
proof -
  have a: "is_heading_paragraph para_intro"
    by (simp add: is_heading_paragraph_def para_intro_def)
  have b: "str_strip (para_text para_intro) \<noteq> []"
    by (simp add: para_intro_def str_strip_def char_class_simps)
  have s: "str_strip (para_text para_setup) = u ''1. Setup''"
    by (simp add: para_setup_def str_strip_def char_class_simps)
  have h: "is_heading (u ''1. Setup'')"
    by (simp add: is_heading_def heading_patterns_def str_strip_def pattern_simps char_class_simps)
  have c: "is_heading_paragraph para_setup"
    unfolding is_heading_paragraph_def s using h by simp
  have d: "str_strip (para_text para_setup) \<noteq> []"
    unfolding s by simp
  have e: "list_all inert [CT_Other]" by simp
  have sb: "str_strip (para_text para_body) = u ''body''"
    by (simp add: para_body_def str_strip_def char_class_simps)
  have nb: "\<not> is_heading_paragraph para_body"
    unfolding is_heading_paragraph_def sb
    by (simp add: para_body_def is_heading_def heading_patterns_def heading_keywords_def
        str_strip_def pattern_simps char_class_simps)
  have r: "word_sections ([] @ [CT_P para_setup] @ [CT_P para_body]) =
       [\<lparr>sec_heading = u ''1. Setup'', sec_content = u ''body'' @ [10], sec_tables = [],
         sec_images = []\<rparr>]"
    using c nb by (simp add: word_sections_def s sb flush_def new_section_def)
  from a b c d e r heading_without_body_is_lost [OF a b c d e, of "[]" "[CT_P para_body]"]
  show ?thesis by simp
qed


section \<open>Pictures of a slide deck (C4)\<close>

lemma shape_step_eq:
  "\<exists>lg'. shape_step n (lg, tx, images) sh =
     (lg', tx @ slide_text [sh], images @ slide_pictures (Suc n) [sh])"
  by (cases "shape_text sh"; cases "shape_picture sh")
     (simp_all add: shape_step_def slide_text_def slide_pictures_def)

lemma slide_text_Cons: "slide_text (sh # slide) = slide_text [sh] @ slide_text slide"
  by (simp add: slide_text_def)

lemma slide_pictures_Cons:
  "slide_pictures k (sh # slide) = slide_pictures k [sh] @ slide_pictures k slide"
  by (simp add: slide_pictures_def)

lemma shape_step_foldl:
  "\<exists>lg'. foldl (shape_step n) (lg, tx, images) slide =
     (lg', tx @ slide_text slide, images @ slide_pictures (Suc n) slide)"
proof (induction slide arbitrary: lg tx images)
  case Nil
  show ?case by (simp add: slide_text_def slide_pictures_def)
next
  case (Cons sh slide)
  from shape_step_eq [of n lg tx images sh] obtain lg1 where
    s: "shape_step n (lg, tx, images) sh =
          (lg1, tx @ slide_text [sh], images @ slide_pictures (Suc n) [sh])" by blast
  from Cons [of lg1 "tx @ slide_text [sh]" "images @ slide_pictures (Suc n) [sh]"]
  obtain lg' where
    "foldl (shape_step n) (lg1, tx @ slide_text [sh], images @ slide_pictures (Suc n) [sh]) slide =
       (lg', (tx @ slide_text [sh]) @ slide_text slide,
        (images @ slide_pictures (Suc n) [sh]) @ slide_pictures (Suc n) slide)" by blast
  then have "foldl (shape_step n) (lg, tx, images) (sh # slide) =
       (lg', tx @ slide_text (sh # slide), images @ slide_pictures (Suc n) (sh # slide))"
    by (simp only: foldl_Cons s slide_text_Cons [of sh slide] slide_pictures_Cons [of _ sh slide]
        append_assoc)
  then show ?case by blast
qed


lemma ppt_slides_char:
  "\<exists>lg'. ppt_slides n slides (lg, sections, images) =
     (lg', sections @ concat (map (\<lambda>(k, slide). slide_section (Suc k) slide) (enumerate n slides)),
      images @ concat (map (\<lambda>(k, slide). slide_pictures (Suc k) slide) (enumerate n slides)))"
proof (induction slides arbitrary: n lg sections images)
  case Nil
  show ?case by simp
next
  case (Cons slide slides)
  from shape_step_foldl [of n lg "[]" images slide] obtain lg1 where
    f: "foldl (shape_step n) (lg, [], images) slide =
          (lg1, slide_text slide, images @ slide_pictures (Suc n) slide)" by auto
  have step: "ppt_slides n (slide # slides) (lg, sections, images) =
      ppt_slides (Suc n) slides
        (lg1, sections @ slide_section (Suc n) slide, images @ slide_pictures (Suc n) slide)"
    by (simp add: f slide_section_def)
  from Cons [of "Suc n" lg1 "sections @ slide_section (Suc n) slide"
      "images @ slide_pictures (Suc n) slide"]
  obtain lg' where
    "ppt_slides (Suc n) slides
        (lg1, sections @ slide_section (Suc n) slide, images @ slide_pictures (Suc n) slide) =
     (lg', (sections @ slide_section (Suc n) slide)
        @ concat (map (\<lambda>(k, slide). slide_section (Suc k) slide) (enumerate (Suc n) slides)),
      (images @ slide_pictures (Suc n) slide)
        @ concat (map (\<lambda>(k, slide). slide_pictures (Suc k) slide) (enumerate (Suc n) slides)))"
    by blast
  then have "ppt_slides n (slide # slides) (lg, sections, images) =
     (lg', sections @ concat (map (\<lambda>(k, slide). slide_section (Suc k) slide)
                          (enumerate n (slide # slides))),
      images @ concat (map (\<lambda>(k, slide). slide_pictures (Suc k) slide)
                          (enumerate n (slide # slides))))"
    unfolding step by simp
  then show ?case by blast
qed

text \<open>
  C4, as amended. Every picture of a slide whose image loads gives one image record
  with \<open>slide\<close> set to the number of the slide, appended to the images of the
  document, in the order of the slides and shapes; the images of every section stay
  empty. A slide whose stripped text is empty gives no section, and its pictures are
  in the images of the document all the same.
\<close>

theorem slide_pictures_go_to_document:
  "snd (process_powerpoint \<lparr>file_path = p, stem = s, suffix = x, payload = Ppt slides\<rparr>) =
     Some \<lparr>dc_title = s, dc_source_file = p, dc_type = u ''powerpoint'',
           dc_sections = concat (map (\<lambda>(k, slide). slide_section (Suc k) slide) (enumerate 0 slides)),
           dc_images = concat (map (\<lambda>(k, slide). slide_pictures (Suc k) slide) (enumerate 0 slides))\<rparr>"
proof -
  from ppt_slides_char [of 0 slides "[]" "[]" "[]"] obtain lg' where
    "ppt_slides 0 slides ([], [], []) =
     (lg', concat (map (\<lambda>(k, slide). slide_section (Suc k) slide) (enumerate 0 slides)),
      concat (map (\<lambda>(k, slide). slide_pictures (Suc k) slide) (enumerate 0 slides)))" by auto
  then show ?thesis by (simp add: process_powerpoint_def)
qed



text \<open>
  C4 as stated fails: the picture of a slide without text is in the images of the
  document, although the slide has no section.
\<close>

theorem slide_pictures_counterexample:
  "snd (process_powerpoint picture_deck) =
     Some \<lparr>dc_title = u ''deck'', dc_source_file = u ''in/deck.pptx'', dc_type = u ''powerpoint'',
           dc_sections = [],
           dc_images = [\<lparr>img_page = None, img_index = None, img_slide = Some 1,
                         img_data = u ''iVBO'', img_format = u ''png'',
                         img_relation_id = None\<rparr>]\<rparr>"
  by (simp add: process_powerpoint_def picture_deck_def shape_step_def str_strip_def b64_char_def)


section \<open>A workbook sheet gives no pair (C2)\<close>

text \<open>
  C2 as stated fails: for the workbook of the claim the synthesiser emits no pair at
  all.
\<close>

theorem workbook_sheet_counterexample:
  "map_option (convert_to_qa_format so_forward) (snd (process_excel sheet1_file)) = Some []"
  by (simp add: process_excel_def sheet1_file_def sheet1_def excel_section_def sheet_data_def
      convert_to_qa_format_def section_qa_def extract_qa_from_table_def get_or_def str_strip_def)


text \<open>
  C2, as amended. For a workbook with the one sheet \<open>Sheet1\<close> and the rows
  \<open>Name, Age\<close> and \<open>Bob, 30\<close> the adapter yields one section with the heading
  "worksheet: Sheet1", empty content and one table that holds the two rows as its
  data and has neither headers nor rows; the synthesiser emits no pair for it, since
  the table path emits a pair only when both headers and rows are non-empty.
\<close>

theorem workbook_sheet_yields_no_pair:
  "process_excel \<lparr>file_path = p, stem = s, suffix = x, payload = Excel [sheet1]\<rparr> =
     ([], Some \<lparr>dc_title = s, dc_source_file = p, dc_type = u ''excel'',
                dc_sections =
                  [\<lparr>sec_heading = zh_gongzuobiao @ u '': Sheet1'', sec_content = [],
                    sec_tables = [\<lparr>tbl_headers = None, tbl_rows = None,
                                   tbl_data = Some [[u ''Name'', u ''Age''], [u ''Bob'', u ''30'']]\<rparr>],
                    sec_images = []\<rparr>],
                dc_images = []\<rparr>)
   \<and> convert_to_qa_format so
         \<lparr>dc_title = s, dc_source_file = p, dc_type = u ''excel'',
          dc_sections =
            [\<lparr>sec_heading = zh_gongzuobiao @ u '': Sheet1'', sec_content = [],
              sec_tables = [\<lparr>tbl_headers = None, tbl_rows = None,
                             tbl_data = Some [[u ''Name'', u ''Age''], [u ''Bob'', u ''30'']]\<rparr>],
              sec_images = []\<rparr>],
          dc_images = []\<rparr> = []"
  by (simp add: process_excel_def sheet1_def excel_section_def sheet_data_def
      convert_to_qa_format_def section_qa_def extract_qa_from_table_def get_or_def str_strip_def)


section \<open>A file that cannot be parsed is counted (C3)\<close>

text \<open>
  The driver increments its counter when \<open>process_single_document\<close> returns
  without an exception. An adapter catches the exception of its library itself and
  returns \<open>None\<close>, so the driver sees a normal return.
\<close>

lemma ok_sections:
  "word_sections [CT_P \<lparr>style_name = u ''Normal'', para_text = u ''ok''\<rparr>] =
     [\<lparr>sec_heading = [], sec_content = u ''ok'' @ [10], sec_tables = [], sec_images = []\<rparr>]"
  by (simp add: word_sections_def is_heading_paragraph_def is_heading_def heading_patterns_def
      heading_keywords_def flush_def new_section_def str_strip_def pattern_simps char_class_simps)

lemma ok_text_qa:
  "extract_qa_from_text so_forward [] (u ''ok'' @ [10]) base_context =
     \<lparr>qa_question = zh_xiangguanwenti, qa_answer = base_context @ [10, 10] @ u ''ok'',
      qa_keywords = [], qa_source = base_context, qa_type = u ''text'',
      qa_image_data = None, qa_image_format = None\<rparr>"
proof -
  have s: "str_strip (u ''ok'' @ [10]) = u ''ok''"
    by (simp add: str_strip_def char_class_simps)
  have c: "re_sub newlines_pattern [10] (u ''ok'') = u ''ok''"
    by (simp add: newlines_pattern_def pattern_simps)
  have q: "first_question question_patterns (u ''ok'') = None"
    by (simp add: question_patterns_def pattern_simps char_class_simps)
  have g: "generalize_question zh_xiangguanwenti (u ''ok'') = zh_xiangguanwenti"
    by (simp add: generalize_question_def date_pattern_def digits_pattern_def estate_pattern_def
        user_pattern_def question_prefixes_def pattern_simps char_class_simps)
  have e: "enhance_answer (u ''ok'') base_context = base_context @ [10, 10] @ u ''ok''"
    by (simp add: enhance_answer_def sql_appendix_def steps_appendix_def sql_pattern_def
        pattern_simps char_class_simps)
  have k: "extract_keywords so_forward (u ''ok'') = []"
    by (simp add: extract_keywords_def found_fixed_def important_words_def tech_keywords_def
        action_keywords_def cjk_run_pattern_def so_forward_def str_lower_def pattern_simps
        char_class_simps)
  show ?thesis
    by (simp add: extract_qa_from_text_def Let_def s [simplified] c [simplified] q [simplified]
        g [simplified] e [simplified] k [simplified])
qed

lemma ok_qa:
  "convert_to_qa_format so_forward
     \<lparr>dc_title = name, dc_source_file = p, dc_type = u ''word'',
      dc_sections = [\<lparr>sec_heading = [], sec_content = u ''ok'' @ [10], sec_tables = [],
                       sec_images = []\<rparr>],
      dc_images = []\<rparr> =
     [\<lparr>qa_question = zh_xiangguanwenti,
       qa_answer = (zh_wendanglaiyuan @ name) @ [10, 10] @ u ''ok'',
       qa_keywords = [], qa_source = zh_wendanglaiyuan @ name, qa_type = u ''text'',
       qa_image_data = None, qa_image_format = None\<rparr>]"
proof -
  have s: "str_strip (u ''ok'' @ [10]) \<noteq> []"
    by (simp add: str_strip_def char_class_simps)
  show ?thesis
    using s by (simp add: convert_to_qa_format_def section_qa_def ok_text_qa [simplified])
qed

lemma docx_supported: "map_of supported_formats (str_lower (u ''.docx'')) = Some process_word"
  by (simp add: supported_formats_def str_lower_def char_class_simps)

lemma good_docx_file:
  "process_file so_forward (\<lambda>name. True) st (good_docx name) =
     st\<lparr>processed_count := processed_count st + 1,
        written := written st @
          [Docx (str_02d (processed_count st) @ u ''_'' @ name @ u ''_processed.docx'')
             [\<lparr>qa_question = zh_xiangguanwenti,
               qa_answer = (zh_wendanglaiyuan @ name) @ [10, 10] @ u ''ok'',
               qa_keywords = [], qa_source = zh_wendanglaiyuan @ name, qa_type = u ''text'',
               qa_image_data = None, qa_image_format = None\<rparr>] name,
           Json (str_02d (processed_count st) @ u ''_'' @ name @ u ''_data.json'')
             (u ''in/'' @ name @ u ''.docx'')
             [\<lparr>qa_question = zh_xiangguanwenti,
               qa_answer = (zh_wendanglaiyuan @ name) @ [10, 10] @ u ''ok'',
               qa_keywords = [], qa_source = zh_wendanglaiyuan @ name, qa_type = u ''text'',
               qa_image_data = None, qa_image_format = None\<rparr>]
             \<lparr>dc_title = name, dc_source_file = u ''in/'' @ name @ u ''.docx'', dc_type = u ''word'',
              dc_sections = [\<lparr>sec_heading = [], sec_content = u ''ok'' @ [10], sec_tables = [],
                               sec_images = []\<rparr>],
              dc_images = []\<rparr>],
        logged := logged st @
          [Info_file (u ''in/'' @ name @ u ''.docx''),
           Info_saved (str_02d (processed_count st) @ u ''_'' @ name @ u ''_processed.docx'')]\<rparr>"
  by (simp add: process_file_def process_single_document_def save_processed_content_def
      good_docx_def docx_supported [simplified] process_word_def ok_sections [simplified]
      ok_qa [simplified] add_log_def Let_def)

lemma corrupt_docx_file:
  "process_file so (\<lambda>name. True) st (corrupt_docx name) =
     st\<lparr>processed_count := processed_count st + 1,
        logged := logged st @
          [Info_file (u ''in/'' @ name @ u ''.docx''), Error_word (u ''in/'' @ name @ u ''.docx'')]\<rparr>"
  by (simp add: process_file_def process_single_document_def
      corrupt_docx_def docx_supported [simplified] process_word_def add_log_def Let_def)

lemma failed_write_not_counted:
  "process_file so_forward (\<lambda>name. False) st (good_docx name) =
     st\<lparr>logged := logged st @
          [Info_file (u ''in/'' @ name @ u ''.docx''), Error_file (u ''in/'' @ name @ u ''.docx'')]\<rparr>"
  by (simp add: process_file_def process_single_document_def save_processed_content_def
      good_docx_def docx_supported [simplified] process_word_def ok_sections [simplified]
      ok_qa [simplified] add_log_def Let_def)

text \<open>
  C3. The claim is that of three files, the second of which cannot be parsed, the
  first and the third get their output, an error is logged for the second, the batch
  goes on, and the final count is 2. The program does all of that except the count:
  the file that failed is counted, the final count is 3, and the output of the third
  file is numbered 02. The theorem evaluates the driver on such a batch.
\<close>

theorem corrupt_file_is_counted:
  "processed_count
     (process_all_documents so_forward (\<lambda>name. True)
        [good_docx (u ''a''), corrupt_docx (u ''b''), good_docx (u ''c'')]) = 3
   \<and> map out_name
       (written (process_all_documents so_forward (\<lambda>name. True)
          [good_docx (u ''a''), corrupt_docx (u ''b''), good_docx (u ''c'')])) =
       [u ''00_a_processed.docx'', u ''00_a_data.json'',
        u ''02_c_processed.docx'', u ''02_c_data.json'']
   \<and> logged
       (process_all_documents so_forward (\<lambda>name. True)
          [good_docx (u ''a''), corrupt_docx (u ''b''), good_docx (u ''c'')]) =
       [Info_start, Info_file (u ''in/a.docx''), Info_saved (u ''00_a_processed.docx''),
        Info_file (u ''in/b.docx''), Error_word (u ''in/b.docx''),
        Info_file (u ''in/c.docx''), Info_saved (u ''02_c_processed.docx''), Info_done 3]"
  by (simp add: process_all_documents_def good_docx_file [simplified]
      corrupt_docx_file [simplified] initial_driver_def add_log_def str_02d_def Let_def)


section \<open>Keyword extraction depends on the set order (C5)\<close>

lemma valid_so_forward: "valid_set_order so_forward"
  by (simp add: valid_set_order_def so_forward_def)

lemma valid_so_backward: "valid_set_order so_backward"
  by (simp add: valid_set_order_def so_backward_def)

lemma valid_set_orderD:
  "valid_set_order so \<Longrightarrow> distinct (so xs)" "valid_set_order so \<Longrightarrow> set (so xs) = set xs"
  by (simp_all add: valid_set_order_def)

lemma valid_set_order_length:
  assumes "valid_set_order so" shows "length (so xs) = length (remdups xs)"
proof -
  have "length (so xs) = card (set (so xs))"
    using valid_set_orderD(1) [OF assms] by (simp add: distinct_card)
  also have "\<dots> = card (set xs)" using valid_set_orderD(2) [OF assms] by simp
  also have "\<dots> = length (remdups xs)" by (simp add: length_remdups_card_conv)
  finally show ?thesis .
qed

lemma extract_keywords_set:
  assumes "valid_set_order so" and "length (remdups (important_words content)) \<le> 10"
  shows "set (extract_keywords so content) = set (found_fixed content) \<union> set (important_words content)"
proof -
  have "take 10 (so (important_words content)) = so (important_words content)"
    using valid_set_order_length [OF assms(1), of "important_words content"] assms(2) by simp
  then show ?thesis
    using valid_set_orderD(2) [OF assms(1)] by (simp add: extract_keywords_def)
qed

lemma eleven_runs_words: "important_words eleven_runs = map cjk_run [0, 1, 2, 3, 4, 5, 6, 7, 8, 9, 10]"
  by (simp add: important_words_def eleven_runs_def cjk_run_def cjk_run_pattern_def pattern_simps)

lemma eleven_runs_fixed: "found_fixed eleven_runs = []"
  by (simp add: found_fixed_def eleven_runs_def cjk_run_def tech_keywords_def action_keywords_def
      str_lower_def char_class_simps)

text \<open>
  C5 as stated fails: on a content with eleven different CJK runs two admissible set
  orders keep different runs.
\<close>

theorem extract_keywords_order_counterexample:
  "valid_set_order so_forward \<and> valid_set_order so_backward
   \<and> extract_keywords so_forward eleven_runs = map cjk_run [0, 1, 2, 3, 4, 5, 6, 7, 8, 9]
   \<and> extract_keywords so_backward eleven_runs = map cjk_run [1, 2, 3, 4, 5, 6, 7, 8, 9, 10]
   \<and> cjk_run 0 \<in> set (extract_keywords so_forward eleven_runs)
   \<and> cjk_run 0 \<notin> set (extract_keywords so_backward eleven_runs)"
proof -
  have f: "extract_keywords so_forward eleven_runs = map cjk_run [0, 1, 2, 3, 4, 5, 6, 7, 8, 9]"
    unfolding extract_keywords_def eleven_runs_words eleven_runs_fixed
    by (simp add: so_forward_def cjk_run_def)
  have b: "extract_keywords so_backward eleven_runs = map cjk_run [1, 2, 3, 4, 5, 6, 7, 8, 9, 10]"
    unfolding extract_keywords_def eleven_runs_words eleven_runs_fixed
    by (simp add: so_backward_def cjk_run_def)
  have i: "cjk_run 0 \<in> set (extract_keywords so_forward eleven_runs)"
    unfolding f by simp
  have n: "cjk_run 0 \<notin> set (extract_keywords so_backward eleven_runs)"
    unfolding b by (simp add: cjk_run_def)
  from valid_so_forward valid_so_backward f b i n show ?thesis by (intro conjI)
qed


text \<open>
  C5, as amended. Two runs of the keyword extraction on the same content, whatever
  their set orders, return the same keywords as a set whenever the content has at most
  ten different CJK runs. (With more runs, which ten are kept depends on the set order
  of the run, and so does the order of the list in every case; for one set order the
  result is a function of the content.)
\<close>

theorem extract_keywords_same_set:
  assumes "valid_set_order so1" and "valid_set_order so2"
    and "length (remdups (important_words content)) \<le> 10"
  shows "set (extract_keywords so1 content) = set (extract_keywords so2 content)"
  using extract_keywords_set [OF assms(1,3)] extract_keywords_set [OF assms(2,3)] by simp


lemma two_runs_words: "important_words two_runs = map cjk_run [0, 1]"
  by (simp add: important_words_def two_runs_def cjk_run_def cjk_run_pattern_def pattern_simps)

theorem extract_keywords_same_set_witness:
  "valid_set_order so_forward \<and> valid_set_order so_backward
   \<and> length (remdups (important_words two_runs)) \<le> 10
   \<and> set (extract_keywords so_forward two_runs) = set (extract_keywords so_backward two_runs)"
proof -
  have l: "length (remdups (important_words two_runs)) \<le> 10"
    unfolding two_runs_words by (simp add: cjk_run_def)
  from valid_so_forward valid_so_backward l extract_keywords_same_set [OF valid_so_forward valid_so_backward l]
  show ?thesis by (intro conjI)
qed


section \<open>Duplicates among the keywords (C6)\<close>

text \<open>
  C6 as stated fails: a table whose header equals the section heading gives the
  keyword twice.
\<close>

theorem table_keywords_counterexample:
  "map_option (\<lambda>q. (qa_keywords q, distinct (qa_keywords q)))
     (extract_qa_from_table (u ''X'')
        \<lparr>tbl_headers = Some [u ''X''], tbl_rows = Some [[u ''1'']], tbl_data = None\<rparr> (u ''ctx'')) =
   Some ([u ''X'', u ''X''], False)"
  by (simp add: extract_qa_from_table_def get_or_def)


text \<open>
  C6, as amended. The keywords of a pair of the text path have no duplicates. The
  keywords of a pair of the table path are the headers followed by the heading; they
  have no duplicates exactly when the headers are pairwise different and the heading
  is not one of them. The keywords of a pair of the image path have no duplicates
  exactly when the title of the document is neither of the two fixed words.
\<close>

theorem keywords_distinct_by_path:
  assumes "valid_set_order so"
  shows "distinct (qa_keywords (extract_qa_from_text so heading content base_context))
     \<and> (extract_qa_from_table heading table base_context = Some q \<longrightarrow>
          qa_keywords q = get_or (tbl_headers table) [] @ [heading]
          \<and> (distinct (qa_keywords q) \<longleftrightarrow>
               distinct (get_or (tbl_headers table) []) \<and> heading \<notin> set (get_or (tbl_headers table) [])))
     \<and> (distinct (qa_keywords (create_image_qa doc_title img index base_context)) \<longleftrightarrow>
          doc_title \<noteq> zh_tupian \<and> doc_title \<noteq> zh_tuxiang)"
proof -
  have a: "distinct (qa_keywords (extract_qa_from_text so heading content base_context))"
    using valid_set_orderD(1) [OF assms]
    by (simp add: extract_qa_from_text_def extract_keywords_def Let_def)
  have b: "extract_qa_from_table heading table base_context = Some q \<longrightarrow>
          qa_keywords q = get_or (tbl_headers table) [] @ [heading]
          \<and> (distinct (qa_keywords q) \<longleftrightarrow>
               distinct (get_or (tbl_headers table) []) \<and> heading \<notin> set (get_or (tbl_headers table) []))"
    by (auto simp: extract_qa_from_table_def Let_def split: if_splits)
  have c: "distinct (qa_keywords (create_image_qa doc_title img index base_context)) \<longleftrightarrow>
          doc_title \<noteq> zh_tupian \<and> doc_title \<noteq> zh_tuxiang"
    by (simp add: create_image_qa_def)
  from a b c show ?thesis by (intro conjI)
qed


theorem keywords_distinct_by_path_witness:
  "valid_set_order so_forward
   \<and> extract_qa_from_table (u ''X'')
        \<lparr>tbl_headers = Some [u ''A'', u ''B''], tbl_rows = Some [[u ''1'', u ''2'']],
         tbl_data = None\<rparr> (u ''ctx'') =
       Some \<lparr>qa_question = zh_guanyu @ u ''X'' @ zh_dexiangxixinxi,
             qa_answer = zh_biaogebiaoti @ u ''X'' @ [10] @ zh_biaogeneirong @ [10]
               @ u ''A | B'' @ [10] @ u ''---|---'' @ [10] @ u ''1 | 2'' @ [10],
             qa_keywords = [u ''A'', u ''B'', u ''X''], qa_source = u ''ctx'',
             qa_type = u ''table'', qa_image_data = None, qa_image_format = None\<rparr>
   \<and> distinct (qa_keywords (extract_qa_from_text so_forward (u ''X'') two_runs (u ''ctx'')))
   \<and> distinct (qa_keywords
         \<lparr>qa_question = zh_guanyu @ u ''X'' @ zh_dexiangxixinxi,
          qa_answer = zh_biaogebiaoti @ u ''X'' @ [10] @ zh_biaogeneirong @ [10]
            @ u ''A | B'' @ [10] @ u ''---|---'' @ [10] @ u ''1 | 2'' @ [10],
          qa_keywords = [u ''A'', u ''B'', u ''X''], qa_source = u ''ctx'',
          qa_type = u ''table'', qa_image_data = None, qa_image_format = None\<rparr>)
   \<and> distinct (qa_keywords (create_image_qa (u ''doc'') deck_image 0 (u ''ctx'')))"
proof -
  have t: "extract_qa_from_table (u ''X'')
        \<lparr>tbl_headers = Some [u ''A'', u ''B''], tbl_rows = Some [[u ''1'', u ''2'']],
         tbl_data = None\<rparr> (u ''ctx'') =
       Some \<lparr>qa_question = zh_guanyu @ u ''X'' @ zh_dexiangxixinxi,
             qa_answer = zh_biaogebiaoti @ u ''X'' @ [10] @ zh_biaogeneirong @ [10]
               @ u ''A | B'' @ [10] @ u ''---|---'' @ [10] @ u ''1 | 2'' @ [10],
             qa_keywords = [u ''A'', u ''B'', u ''X''], qa_source = u ''ctx'',
             qa_type = u ''table'', qa_image_data = None, qa_image_format = None\<rparr>"
    by (simp add: extract_qa_from_table_def get_or_def)
  from keywords_distinct_by_path [OF valid_so_forward, where heading = "u ''X''"
      and content = two_runs and base_context = "u ''ctx''" and doc_title = "u ''doc''"
      and table = "\<lparr>tbl_headers = Some [u ''A'', u ''B''], tbl_rows = Some [[u ''1'', u ''2'']],
         tbl_data = None\<rparr>" and img = deck_image and index = 0]
    t valid_so_forward
  show ?thesis by (simp add: get_or_def)
qed

end
